theory Spec2Isabelle
  imports Complex_Main "HOL-Library.Word" "HOL-Library.Sublist"
    "HOL-Library.Char_ord" "HOL-Library.List_Lexorder" "HOL-Library.AList"
begin

unbundle bit_operations_syntax

section \<open>Values, exceptions and shared helpers of \<^verbatim>\<open>sync_google_ads.py\<close>\<close>

text \<open>
  Python floats are modelled by exact rationals: rounding, overflow to infinity and NaN
  are outside the model. Python's unbounded \<^verbatim>\<open>int\<close> is \<^typ>\<open>int\<close>. A \<^verbatim>\<open>str\<close> is a
  \<^typ>\<open>string\<close> whose characters are read as the code points 0 to 255.

  An exception is a value: a function that can raise returns \<open>exn + 'a\<close>, with \<open>Inl\<close>
  for the exception. \<open>Raised msg\<close> stands for any exception coming out of one of the two
  vendor clients (the advertising API, the store), \<open>msg\<close> being what \<^verbatim>\<open>str(exc)\<close> gives.
\<close>

datatype exn = ZeroDivisionError | StatisticsError | Raised string

fun exc_str :: "exn \<Rightarrow> string" where
  "exc_str ZeroDivisionError = ''float division by zero''"
| "exc_str StatisticsError = ''no median for empty data''"
| "exc_str (Raised msg) = msg"

text \<open>Python's \<^verbatim>\<open>a / b\<close> on numbers: it raises when the divisor is zero.\<close>

definition py_truediv :: "rat \<Rightarrow> rat \<Rightarrow> exn + rat" where
  "py_truediv a b = (if b = 0 then Inl ZeroDivisionError else Inr (a / b))"

text \<open>\<^verbatim>\<open>_micros(val) = int(val or 0) / 1_000_000\<close>, on an integer field of the API.\<close>

definition u_micros :: "int \<Rightarrow> rat" where
  "u_micros val = of_int (if val \<noteq> 0 then val else 0) / 1000000"

text \<open>
  \<^verbatim>\<open>_div(numerator, denominator) = numerator / denominator if denominator else 0.0\<close>:
  a number is falsy exactly when it is zero.
\<close>

definition u_div :: "rat \<Rightarrow> rat \<Rightarrow> exn + rat" where
  "u_div numerator denominator =
     (if denominator \<noteq> 0 then py_truediv numerator denominator else Inr 0)"

text \<open>Sequencing of calls that can raise: the first exception ends the computation.\<close>

definition bind_exn :: "exn + 'a \<Rightarrow> ('a \<Rightarrow> exn + 'b) \<Rightarrow> exn + 'b" where
  "bind_exn m f = (case m of Inl e \<Rightarrow> Inl e | Inr x \<Rightarrow> f x)"

text \<open>
  A loop that appends one result per element, \<^verbatim>\<open>for r in rows: out.append(f(r))\<close>, where
  \<open>f\<close> can raise: the first exception ends the loop and is the outcome.
\<close>

fun map_exn :: "('a \<Rightarrow> exn + 'b) \<Rightarrow> 'a list \<Rightarrow> exn + 'b list" where
  "map_exn f [] = Inr []"
| "map_exn f (r # rows) =
     bind_exn (f r) (\<lambda>x. bind_exn (map_exn f rows) (\<lambda>out. Inr (x # out)))"

subsection \<open>Strings\<close>

text \<open>\<^verbatim>\<open>str.lower()\<close>, on the code points 0 to 255: A to Z and the accented capitals move by 32.\<close>

definition lower_char :: "char \<Rightarrow> char" where
  "lower_char c =
     (let n = (of_char c :: nat)
      in if (65 \<le> n \<and> n \<le> 90) \<or> (192 \<le> n \<and> n \<le> 222 \<and> n \<noteq> 215)
         then char_of (n + 32) else c)"

definition lower :: "string \<Rightarrow> string" where
  "lower s = map lower_char s"

text \<open>\<^verbatim>\<open>k in t\<close> on strings: \<open>k\<close> occurs in \<open>t\<close> as a contiguous run.\<close>

fun contains :: "string \<Rightarrow> string \<Rightarrow> bool" where
  "contains k [] = (k = [])"
| "contains k (c # t) = (prefix k (c # t) \<or> contains k t)"

definition startswith :: "string \<Rightarrow> string \<Rightarrow> bool" where
  "startswith t k = prefix k t"

definition endswith :: "string \<Rightarrow> string \<Rightarrow> bool" where
  "endswith t k = prefix (rev k) (rev t)"

text \<open>\<^verbatim>\<open>any(k in t for k in ks)\<close>.\<close>

definition any_in :: "string list \<Rightarrow> string \<Rightarrow> bool" where
  "any_in ks t = list_ex (\<lambda>k. contains k t) ks"

text \<open>\<^verbatim>\<open>str(n)\<close> on an integer: its decimal digits, with a minus sign when negative.\<close>

definition digit_chr :: "nat \<Rightarrow> char" where
  "digit_chr d = ''0123456789'' ! (d mod 10)"

fun str_nat :: "nat \<Rightarrow> string" where
  "str_nat n = (if 10 \<le> n then str_nat (n div 10) @ [digit_chr (n mod 10)] else [digit_chr n])"

declare str_nat.simps [simp del]

definition str_int :: "int \<Rightarrow> string" where
  "str_int i = (if i < 0 then CHR ''-'' # str_nat (nat (- i)) else str_nat (nat i))"

text \<open>\<^verbatim>\<open>sep.join(xs)\<close>.\<close>

fun join :: "string \<Rightarrow> string list \<Rightarrow> string" where
  "join sep [] = []"
| "join sep [x] = x"
| "join sep (x # y # xs) = x @ sep @ join sep (y # xs)"

text \<open>
  A value of an API enum field. \<^verbatim>\<open>_ename(val)\<close> is \<^verbatim>\<open>val.name\<close> when the value has that
  attribute and \<^verbatim>\<open>str(val)\<close> otherwise: \<open>Named n\<close> is a value with name \<open>n\<close>, \<open>Plain s\<close> one
  without, printed as \<open>s\<close>.
\<close>

datatype enum_val = Named string | Plain string

fun u_ename :: "enum_val \<Rightarrow> string" where
  "u_ename (Named n) = n"
| "u_ename (Plain s) = s"

section \<open>Campaign name to product and intent bucket\<close>

definition infer_product :: "string \<Rightarrow> string" where
  "infer_product text =
     (let t = lower text
      in if any_in [''termlife'', ''term life'', ''term-life'', ''life insurance''] t
           then ''Term Life''
         else if contains ''dental'' t then ''Dental Network''
         else if any_in [''disability'', ''idi''] t then ''Disability''
         else if any_in [''annuity'', ''annuities'', ''rila'', ''retirement''] t
           then ''Annuities''
         else if any_in [''recruit'', ''credential'', ''join'', ''provider''] t
           then ''Join Our Network''
         else ''Other'')"

definition has_nonbrand :: "string \<Rightarrow> bool" where
  "has_nonbrand t = any_in [''nonbrand'', ''non-brand'', ''nonbranded'', ''non-branded''] t"

definition infer_intent_bucket :: "string \<Rightarrow> string" where
  "infer_intent_bucket text =
     (let t = lower text
      in if contains ''google_brand'' t \<or> startswith t ''google_brand'' then ''Brand''
         else if \<not> has_nonbrand t \<and>
                 (contains ''-brand-'' t \<or> contains ''-branded'' t \<or> endswith t ''-branded'')
           then ''Brand''
         else if any_in [''group'', ''employer'', ''worksite'', ''abm-''] t then ''Group''
         else if any_in [''leadgen'', ''conversion'', ''quote'', ''quotes''] t
           then ''Nonbrand Lead Gen''
         else if any_in [''midfunnel'', ''education'', ''alwayson'', ''traffic'', ''awareness''] t
           then ''Education/Midfunnel''
         else ''Education/Midfunnel'')"

section \<open>Campaign rows to Output Records\<close>

text \<open>
  A report row of the API, as far as the campaigns transform reads it: the attributes
  \<^verbatim>\<open>r.campaign.*\<close>, \<^verbatim>\<open>r.segments.date\<close> and \<^verbatim>\<open>r.metrics.*\<close>.
\<close>

record metrics =
  cost_micros :: int
  impressions :: int
  clicks :: int
  conversions :: rat
  conversions_value :: rat
  ctr :: rat
  average_cpc :: int
  search_impression_share :: rat
  search_budget_lost_impression_share :: rat
  search_rank_lost_impression_share :: rat

record campaign_row =
  campaign_id :: int
  campaign_name :: string
  campaign_status :: enum_val
  segments_date :: string
  row_metrics :: metrics

text \<open>The dictionary built for one campaign row: its keys are fixed, so it is a record.\<close>

record campaign_rec =
  c_id :: string
  c_date :: string
  c_campaign_name :: string
  c_product :: string
  c_intent_bucket :: string
  c_status :: string
  c_spend :: rat
  c_impressions :: int
  c_clicks :: int
  c_conversions :: rat
  c_conversion_value :: rat
  c_ctr :: rat
  c_cpc :: rat
  c_cpa :: rat
  c_roas :: rat
  c_conv_rate :: rat
  c_search_impression_share :: rat
  c_lost_is_budget :: rat
  c_lost_is_rank :: rat

definition STATUS_MAP :: "string \<rightharpoonup> string" where
  "STATUS_MAP = map_of [(''ENABLED'', ''enabled''), (''PAUSED'', ''paused''), (''REMOVED'', ''ended'')]"

text \<open>\<^verbatim>\<open>table.get(key, fallback)\<close>.\<close>

definition dict_get :: "('k \<rightharpoonup> 'v) \<Rightarrow> 'k \<Rightarrow> 'v \<Rightarrow> 'v" where
  "dict_get table k fallback = (case table k of None \<Rightarrow> fallback | Some v \<Rightarrow> v)"

text \<open>\<^verbatim>\<open>x or 0\<close> on a number.\<close>

definition or_zero :: "rat \<Rightarrow> rat" where
  "or_zero x = (if x \<noteq> 0 then x else 0)"

text \<open>The body of the loop of \<^verbatim>\<open>_xf_campaigns\<close>: the record appended for the row \<open>r\<close>.\<close>

definition xf_campaign :: "campaign_row \<Rightarrow> exn + campaign_rec" where
  "xf_campaign r =
     (let m = row_metrics r;
          spend = u_micros (cost_micros m);
          convs = conversions m;
          conv_val = conversions_value m;
          n_clicks = clicks m
      in bind_exn (u_div spend convs) (\<lambda>cpa.
         bind_exn (u_div conv_val spend) (\<lambda>roas.
         bind_exn (u_div convs (of_int n_clicks)) (\<lambda>conv_rate.
         Inr \<lparr> c_id = str_int (campaign_id r),
               c_date = segments_date r,
               c_campaign_name = campaign_name r,
               c_product = infer_product (campaign_name r),
               c_intent_bucket = infer_intent_bucket (campaign_name r),
               c_status = dict_get STATUS_MAP (u_ename (campaign_status r)) ''paused'',
               c_spend = spend,
               c_impressions = impressions m,
               c_clicks = n_clicks,
               c_conversions = convs,
               c_conversion_value = conv_val,
               c_ctr = ctr m,
               c_cpc = u_micros (average_cpc m),
               c_cpa = cpa,
               c_roas = roas,
               c_conv_rate = conv_rate,
               c_search_impression_share = or_zero (search_impression_share m),
               c_lost_is_budget = or_zero (search_budget_lost_impression_share m),
               c_lost_is_rank = or_zero (search_rank_lost_impression_share m) \<rparr>))))"

text \<open>\<^verbatim>\<open>_xf_campaigns(rows)\<close>: one record per row, in order.\<close>

definition u_xf_campaigns :: "campaign_row list \<Rightarrow> exn + campaign_rec list" where
  "u_xf_campaigns rows = map_exn xf_campaign rows"


section \<open>Identifiers from composite keys\<close>

text \<open>
  \<^verbatim>\<open>for i in range(0, len(xs), size): chunk = xs[i : i + size]\<close>: the slices a loop of
  this shape visits, in order, starting at index \<open>i\<close>. The step is a positive constant
  wherever the source has this loop (200 and 500).
\<close>

function range_slices :: "nat \<Rightarrow> nat \<Rightarrow> 'a list \<Rightarrow> 'a list list" where
  "range_slices sz i xs =
     (if 0 < sz \<and> i < length xs
      then take sz (drop i xs) # range_slices sz (i + sz) xs else [])"
  by pat_completeness auto
termination
  by (relation "measure (\<lambda>(sz, i, xs). length xs - i)") auto

declare range_slices.simps [simp del]

subsection \<open>SHA-256 of \<^verbatim>\<open>hashlib\<close>, after FIPS 180-4\<close>

type_synonym byte = "8 word"
type_synonym u32 = "32 word"

text \<open>\<^verbatim>\<open>str.encode()\<close>: UTF-8, of code points below 256.\<close>

definition encode_char :: "char \<Rightarrow> byte list" where
  "encode_char c =
     (let n = (of_char c :: nat)
      in if n < 128 then [of_nat n] else [of_nat (192 + n div 64), of_nat (128 + n mod 64)])"

definition encode :: "string \<Rightarrow> byte list" where
  "encode s = concat (map encode_char s)"

definition rotr :: "nat \<Rightarrow> u32 \<Rightarrow> u32" where
  "rotr n x = (drop_bit n x) OR (push_bit (32 - n) x)"

definition ch :: "u32 \<Rightarrow> u32 \<Rightarrow> u32 \<Rightarrow> u32" where
  "ch x y z = (x AND y) XOR (NOT x AND z)"

definition maj :: "u32 \<Rightarrow> u32 \<Rightarrow> u32 \<Rightarrow> u32" where
  "maj x y z = (x AND y) XOR (x AND z) XOR (y AND z)"

definition bsig0 :: "u32 \<Rightarrow> u32" where
  "bsig0 x = rotr 2 x XOR rotr 13 x XOR rotr 22 x"

definition bsig1 :: "u32 \<Rightarrow> u32" where
  "bsig1 x = rotr 6 x XOR rotr 11 x XOR rotr 25 x"

definition ssig0 :: "u32 \<Rightarrow> u32" where
  "ssig0 x = rotr 7 x XOR rotr 18 x XOR drop_bit 3 x"

definition ssig1 :: "u32 \<Rightarrow> u32" where
  "ssig1 x = rotr 17 x XOR rotr 19 x XOR drop_bit 10 x"

definition sha_K :: "u32 list" where
  "sha_K =
   [0x428A2F98, 0x71374491, 0xB5C0FBCF, 0xE9B5DBA5, 0x3956C25B, 0x59F111F1, 0x923F82A4, 0xAB1C5ED5,
    0xD807AA98, 0x12835B01, 0x243185BE, 0x550C7DC3, 0x72BE5D74, 0x80DEB1FE, 0x9BDC06A7, 0xC19BF174,
    0xE49B69C1, 0xEFBE4786, 0x0FC19DC6, 0x240CA1CC, 0x2DE92C6F, 0x4A7484AA, 0x5CB0A9DC, 0x76F988DA,
    0x983E5152, 0xA831C66D, 0xB00327C8, 0xBF597FC7, 0xC6E00BF3, 0xD5A79147, 0x06CA6351, 0x14292967,
    0x27B70A85, 0x2E1B2138, 0x4D2C6DFC, 0x53380D13, 0x650A7354, 0x766A0ABB, 0x81C2C92E, 0x92722C85,
    0xA2BFE8A1, 0xA81A664B, 0xC24B8B70, 0xC76C51A3, 0xD192E819, 0xD6990624, 0xF40E3585, 0x106AA070,
    0x19A4C116, 0x1E376C08, 0x2748774C, 0x34B0BCB5, 0x391C0CB3, 0x4ED8AA4A, 0x5B9CCA4F, 0x682E6FF3,
    0x748F82EE, 0x78A5636F, 0x84C87814, 0x8CC70208, 0x90BEFFFA, 0xA4506CEB, 0xBEF9A3F7, 0xC67178F2]"

text \<open>The eight working words \<open>a\<close> to \<open>h\<close>, and the chaining value.\<close>

type_synonym sha_state = "u32 \<times> u32 \<times> u32 \<times> u32 \<times> u32 \<times> u32 \<times> u32 \<times> u32"

definition sha_init :: sha_state where
  "sha_init = (0x6A09E667, 0xBB67AE85, 0x3C6EF372, 0xA54FF53A,
               0x510E527F, 0x9B05688C, 0x1F83D9AB, 0x5BE0CD19)"

text \<open>Padding: the bit 1, zeros up to 56 modulo 64, the bit length as 8 big-endian bytes.\<close>

definition be_bytes :: "64 word \<Rightarrow> byte list" where
  "be_bytes n = map (\<lambda>i. ucast (drop_bit (8 * (7 - i)) n)) [0..<8]"

definition sha_pad :: "byte list \<Rightarrow> byte list" where
  "sha_pad msg =
     msg @ [128] @ replicate ((119 - length msg mod 64) mod 64) 0
         @ be_bytes (8 * of_nat (length msg))"

definition be_word :: "byte list \<Rightarrow> u32" where
  "be_word bs = foldl (\<lambda>acc b. push_bit 8 acc OR ucast b) 0 bs"

text \<open>The message schedule: 16 words of the block, extended to 64.\<close>

fun sha_extend :: "nat \<Rightarrow> u32 list \<Rightarrow> u32 list" where
  "sha_extend 0 ws = ws"
| "sha_extend (Suc n) ws =
     (let t = length ws
      in sha_extend n
           (ws @ [ssig1 (ws ! (t - 2)) + ws ! (t - 7) + ssig0 (ws ! (t - 15)) + ws ! (t - 16)]))"

definition sha_schedule :: "byte list \<Rightarrow> u32 list" where
  "sha_schedule block = sha_extend 48 (map be_word (range_slices 4 0 block))"

fun sha_round :: "sha_state \<Rightarrow> u32 \<times> u32 \<Rightarrow> sha_state" where
  "sha_round (a, b, c, d, e, f, g, h) (k, w) =
     (let t1 = h + bsig1 e + ch e f g + k + w;
          t2 = bsig0 a + maj a b c
      in (t1 + t2, a, b, c, d + t1, e, f, g))"

fun sha_add :: "sha_state \<Rightarrow> sha_state \<Rightarrow> sha_state" where
  "sha_add (a, b, c, d, e, f, g, h) (a', b', c', d', e', f', g', h') =
     (a + a', b + b', c + c', d + d', e + e', f + f', g + g', h + h')"

definition sha_block :: "sha_state \<Rightarrow> byte list \<Rightarrow> sha_state" where
  "sha_block hs block = sha_add hs (foldl sha_round hs (zip sha_K (sha_schedule block)))"

definition sha256 :: "byte list \<Rightarrow> sha_state" where
  "sha256 msg = foldl sha_block sha_init (range_slices 64 0 (sha_pad msg))"

text \<open>\<^verbatim>\<open>.hexdigest()\<close>: each word as 8 lower-case hexadecimal digits, most significant first.\<close>

definition hex_digit :: "u32 \<Rightarrow> char" where
  "hex_digit d = ''0123456789abcdef'' ! unat (d AND 15)"

definition hex_word :: "u32 \<Rightarrow> string" where
  "hex_word w = map (\<lambda>i. hex_digit (drop_bit (4 * (7 - i)) w)) [0..<8]"

fun hexdigest :: "sha_state \<Rightarrow> string" where
  "hexdigest (a, b, c, d, e, f, g, h) =
     hex_word a @ hex_word b @ hex_word c @ hex_word d @
     hex_word e @ hex_word f @ hex_word g @ hex_word h"

subsection \<open>\<^verbatim>\<open>_make_id\<close>\<close>

text \<open>
  The key parts the transforms pass are integers (API identifiers, the hour) and strings;
  \<^verbatim>\<open>str(p)\<close> prints either.
\<close>

datatype key_part = PInt int | PStr string

fun str_part :: "key_part \<Rightarrow> string" where
  "str_part (PInt i) = str_int i"
| "str_part (PStr s) = s"

definition u_make_id :: "key_part list \<Rightarrow> string" where
  "u_make_id parts =
     (let raw = join ''|'' (map str_part parts)
      in take 16 (hexdigest (sha256 (encode raw))))"


section \<open>Search-term classification\<close>

text \<open>
  \<^verbatim>\<open>statistics.median(data)\<close>: the middle element of the sorted data, the mean of the two
  middle elements when their number is even; it raises on empty data.
\<close>

definition py_median :: "rat list \<Rightarrow> exn + rat" where
  "py_median vals =
     (let data = sort vals; n = length data
      in if n = 0 then Inl StatisticsError
         else if n mod 2 = 1 then Inr (data ! (n div 2))
         else Inr ((data ! (n div 2 - 1) + data ! (n div 2)) / 2))"

text \<open>\<^verbatim>\<open>_med(vals) = _median(vals) if vals else 0.0\<close>.\<close>

definition u_med :: "rat list \<Rightarrow> exn + rat" where
  "u_med vals = (if vals \<noteq> [] then py_median vals else Inr 0)"

text \<open>
  \<^verbatim>\<open>_classify_search_term\<close> returns a label and a reason. The reason is a formatted
  message for the reader (\<^verbatim>\<open>f"Spent ${spend:,.2f} with 0 conversions."\<close>) whose text
  depends on float formatting; the model keeps the label.
\<close>

definition u_classify_search_term :: "rat \<Rightarrow> rat \<Rightarrow> rat \<Rightarrow> rat \<Rightarrow> string" where
  "u_classify_search_term spend convs cpa median_cpa =
     (if convs \<ge> 1 then
        (if median_cpa = 0 \<or> (cpa > 0 \<and> cpa \<le> median_cpa * (8 / 10)) then ''winner''
         else ''neutral'')
      else if spend \<ge> 100 \<and> convs = 0 then ''loser''
      else ''neutral'')"

definition MATCH_MAP :: "string \<rightharpoonup> string" where
  "MATCH_MAP = map_of [(''EXACT'', ''Exact''), (''PHRASE'', ''Phrase''), (''BROAD'', ''Broad'')]"

text \<open>\<^verbatim>\<open>_lookup(table, val, fallback) = table.get(_ename(val), fallback)\<close>.\<close>

definition u_lookup :: "(string \<rightharpoonup> string) \<Rightarrow> enum_val \<Rightarrow> string \<Rightarrow> string" where
  "u_lookup table val fallback = dict_get table (u_ename val) fallback"

text \<open>A row of the search-terms report, as far as the transform reads it.\<close>

record search_term_row =
  st_search_term :: string
  st_campaign_id :: int
  st_campaign_name :: string
  st_ad_group_id :: int
  st_ad_group_name :: string
  st_match_type :: enum_val
  st_date :: string
  st_metrics :: metrics

record search_term_rec =
  s_id :: string
  s_date :: string
  s_search_term :: string
  s_campaign_id :: string
  s_campaign_name :: string
  s_ad_group_id :: string
  s_ad_group_name :: string
  s_match_type :: string
  s_label :: string
  s_spend :: rat
  s_impressions :: int
  s_clicks :: int
  s_conversions :: rat
  s_conversion_value :: rat
  s_cpa :: rat
  s_ctr :: rat

text \<open>First pass of \<^verbatim>\<open>_xf_search_terms\<close>: the tuple \<^verbatim>\<open>(spend, convs, cpa, r)\<close> of a row.\<close>

definition st_base :: "search_term_row \<Rightarrow> exn + (rat \<times> rat \<times> rat \<times> search_term_row)" where
  "st_base r =
     (let spend = u_micros (cost_micros (st_metrics r));
          convs = conversions (st_metrics r)
      in bind_exn (u_div spend convs) (\<lambda>cpa. Inr (spend, convs, cpa, r)))"

text \<open>\<^verbatim>\<open>cpas = [cpa for _, convs, cpa, _ in base if convs > 0 and cpa > 0]\<close>.\<close>

definition st_cpas :: "(rat \<times> rat \<times> rat \<times> search_term_row) list \<Rightarrow> rat list" where
  "st_cpas base = map (\<lambda>(spend, convs, cpa, r). cpa)
                      (filter (\<lambda>(spend, convs, cpa, r). convs > 0 \<and> cpa > 0) base)"

text \<open>The record the second pass appends for a tuple whose search term is not empty.\<close>

definition st_record :: "rat \<Rightarrow> rat \<times> rat \<times> rat \<times> search_term_row \<Rightarrow> search_term_rec" where
  "st_record median_cpa b =
     (case b of (spend, convs, cpa, r) \<Rightarrow>
        let term = st_search_term r;
            label = u_classify_search_term spend convs cpa median_cpa
        in \<lparr> s_id = u_make_id [PInt (st_campaign_id r), PInt (st_ad_group_id r), PStr term,
                                 PStr (u_ename (st_match_type r))],
             s_date = st_date r,
             s_search_term = term,
             s_campaign_id = str_int (st_campaign_id r),
             s_campaign_name = st_campaign_name r,
             s_ad_group_id = str_int (st_ad_group_id r),
             s_ad_group_name = st_ad_group_name r,
             s_match_type = u_lookup MATCH_MAP (st_match_type r) ''Broad'',
             s_label = label,
             s_spend = spend,
             s_impressions = impressions (st_metrics r),
             s_clicks = clicks (st_metrics r),
             s_conversions = convs,
             s_conversion_value = conversions_value (st_metrics r),
             s_cpa = cpa,
             s_ctr = ctr (st_metrics r) \<rparr>)"

text \<open>
  Second pass: \<^verbatim>\<open>if not term: continue\<close> skips a tuple with an empty search term, any
  other gets its record.
\<close>

fun st_second_pass ::
  "rat \<Rightarrow> (rat \<times> rat \<times> rat \<times> search_term_row) list \<Rightarrow> search_term_rec list" where
  "st_second_pass median_cpa [] = []"
| "st_second_pass median_cpa (b # base) =
     (if st_search_term (snd (snd (snd b))) = [] then st_second_pass median_cpa base
      else st_record median_cpa b # st_second_pass median_cpa base)"

definition u_xf_search_terms :: "search_term_row list \<Rightarrow> exn + search_term_rec list" where
  "u_xf_search_terms rows =
     bind_exn (map_exn st_base rows) (\<lambda>base.
     bind_exn (u_med (st_cpas base)) (\<lambda>median_cpa.
     Inr (st_second_pass median_cpa base)))"


section \<open>Deduplication and batched upsert\<close>

text \<open>
  \<^verbatim>\<open>_dedupe(records)\<close>. \<open>key rec\<close> is the pair \<^verbatim>\<open>(rec["id"], rec["date"])\<close>, which every
  Output Record carries. The dictionary \<^verbatim>\<open>seen\<close> is an association list in insertion
  order; \<^verbatim>\<open>seen[k] = idx\<close> replaces the value of a key that is there and appends a new
  one otherwise; the records at the sorted values are returned.
\<close>

definition dedupe_seen :: "('r \<Rightarrow> string \<times> string) \<Rightarrow> 'r list \<Rightarrow> ((string \<times> string) \<times> nat) list" where
  "dedupe_seen key records =
     foldl (\<lambda>seen (idx, rec). AList.update (key rec) idx seen) [] (enumerate 0 records)"

definition u_dedupe :: "('r \<Rightarrow> string \<times> string) \<Rightarrow> 'r list \<Rightarrow> 'r list" where
  "u_dedupe key records = map (\<lambda>i. records ! i) (sort (map snd (dedupe_seen key records)))"

definition BATCH_SIZE :: nat where
  "BATCH_SIZE = 500"

text \<open>
  The store client: \<open>store table chunk\<close> is the outcome of
  \<^verbatim>\<open>supa.table(table).upsert(chunk, on_conflict="id,date").execute()\<close>, \<open>Some e\<close> when it
  raises \<open>e\<close>.
\<close>

fun upsert_batches :: "(string \<Rightarrow> 'r list \<Rightarrow> exn option) \<Rightarrow> string \<Rightarrow> 'r list list \<Rightarrow> nat \<Rightarrow> exn + nat" where
  "upsert_batches store table [] tot = Inr tot"
| "upsert_batches store table (chunk # rest) tot =
     (case store table chunk of
        Some e \<Rightarrow> Inl e
      | None \<Rightarrow> upsert_batches store table rest (tot + length chunk))"

definition u_upsert ::
  "('r \<Rightarrow> string \<times> string) \<Rightarrow> (string \<Rightarrow> 'r list \<Rightarrow> exn option) \<Rightarrow> string \<Rightarrow> 'r list \<Rightarrow> exn + nat" where
  "u_upsert key store table records =
     (if records = [] then Inr 0
      else upsert_batches store table (range_slices BATCH_SIZE 0 (u_dedupe key records)) 0)"

section \<open>Geo enrichment\<close>

definition US_STATE_CODE_BY_NAME :: "string \<rightharpoonup> string" where
  "US_STATE_CODE_BY_NAME = map_of
     [(''Alabama'', ''AL''), (''Alaska'', ''AK''), (''Arizona'', ''AZ''),
      (''Arkansas'', ''AR''), (''California'', ''CA''), (''Colorado'', ''CO''),
      (''Connecticut'', ''CT''), (''Delaware'', ''DE''), (''District of Columbia'', ''DC''),
      (''Florida'', ''FL''), (''Georgia'', ''GA''), (''Hawaii'', ''HI''),
      (''Idaho'', ''ID''), (''Illinois'', ''IL''), (''Indiana'', ''IN''),
      (''Iowa'', ''IA''), (''Kansas'', ''KS''), (''Kentucky'', ''KY''),
      (''Louisiana'', ''LA''), (''Maine'', ''ME''), (''Maryland'', ''MD''),
      (''Massachusetts'', ''MA''), (''Michigan'', ''MI''), (''Minnesota'', ''MN''),
      (''Mississippi'', ''MS''), (''Missouri'', ''MO''), (''Montana'', ''MT''),
      (''Nebraska'', ''NE''), (''Nevada'', ''NV''), (''New Hampshire'', ''NH''),
      (''New Jersey'', ''NJ''), (''New Mexico'', ''NM''), (''New York'', ''NY''),
      (''North Carolina'', ''NC''), (''North Dakota'', ''ND''), (''Ohio'', ''OH''),
      (''Oklahoma'', ''OK''), (''Oregon'', ''OR''), (''Pennsylvania'', ''PA''),
      (''Rhode Island'', ''RI''), (''South Carolina'', ''SC''), (''South Dakota'', ''SD''),
      (''Tennessee'', ''TN''), (''Texas'', ''TX''), (''Utah'', ''UT''),
      (''Vermont'', ''VT''), (''Virginia'', ''VA''), (''Washington'', ''WA''),
      (''West Virginia'', ''WV''), (''Wisconsin'', ''WI''), (''Wyoming'', ''WY'')]"

text \<open>
  The advertising API: \<open>ga query\<close> is the outcome of \<^verbatim>\<open>service.search_stream\<close> on the
  query, the batches of the stream when it returns. \<^verbatim>\<open>_run_gaql\<close> collects their rows.
\<close>

definition u_run_gaql :: "(string \<Rightarrow> exn + 'row list list) \<Rightarrow> string \<Rightarrow> exn + 'row list" where
  "u_run_gaql ga query = bind_exn (ga query) (\<lambda>stream. Inr (concat stream))"

text \<open>A row of \<^verbatim>\<open>geo_target_constant\<close>, and what the enricher keeps of it.\<close>

record geo_target_constant =
  gt_id :: int
  gt_name :: string
  gt_canonical_name :: string
  gt_target_type :: enum_val
  gt_country_code :: string

record geo_info =
  gi_name :: string
  gi_canonical_name :: string
  gi_target_type :: string
  gi_country_code :: string

definition NL :: string where
  "NL = [CHR 0x0A]"

definition geo_query :: "string \<Rightarrow> string" where
  "geo_query id_list =
     NL @
     ''            SELECT'' @ NL @
     ''                geo_target_constant.id,'' @ NL @
     ''                geo_target_constant.name,'' @ NL @
     ''                geo_target_constant.canonical_name,'' @ NL @
     ''                geo_target_constant.target_type,'' @ NL @
     ''                geo_target_constant.country_code'' @ NL @
     ''            FROM geo_target_constant'' @ NL @
     ''            WHERE geo_target_constant.id IN (''
     @ id_list @
     '')'' @ NL @ ''        ''"

text \<open>\<^verbatim>\<open>resolved[str(geo.id)] = {...}\<close> for one returned row.\<close>

definition geo_resolve :: "(string \<rightharpoonup> geo_info) \<Rightarrow> geo_target_constant \<Rightarrow> (string \<rightharpoonup> geo_info)" where
  "geo_resolve resolved geo =
     resolved(str_int (gt_id geo) \<mapsto>
       \<lparr> gi_name = gt_name geo,
         gi_canonical_name = gt_canonical_name geo,
         gi_target_type = u_ename (gt_target_type geo),
         gi_country_code = gt_country_code geo \<rparr>)"

text \<open>
  The loop of \<^verbatim>\<open>_geo_target_details\<close> over the chunks: one query per chunk. The result
  pairs the queries issued, in order, with the outcome: an exception of the API leaves
  the loop.
\<close>

fun geo_lookup_chunks ::
  "(string \<Rightarrow> exn + geo_target_constant list list) \<Rightarrow> string list list \<Rightarrow> (string \<rightharpoonup> geo_info)
     \<Rightarrow> string list \<times> (exn + (string \<rightharpoonup> geo_info))" where
  "geo_lookup_chunks ga [] resolved = ([], Inr resolved)"
| "geo_lookup_chunks ga (chunk # rest) resolved =
     (let id_list = join '', '' chunk;
          query = geo_query id_list
      in case u_run_gaql ga query of
           Inl e \<Rightarrow> ([query], Inl e)
         | Inr rows \<Rightarrow>
             (case geo_lookup_chunks ga rest (foldl geo_resolve resolved rows) of
                (queries, res) \<Rightarrow> (query # queries, res)))"

definition u_geo_target_details ::
  "(string \<Rightarrow> exn + geo_target_constant list list) \<Rightarrow> string list
     \<Rightarrow> string list \<times> (exn + (string \<rightharpoonup> geo_info))" where
  "u_geo_target_details ga criterion_ids =
     (if criterion_ids = [] then ([], Inr Map.empty)
      else geo_lookup_chunks ga (range_slices 200 0 criterion_ids) Map.empty)"

text \<open>\<^verbatim>\<open>str.strip()\<close> and \<^verbatim>\<open>str.isdigit()\<close>, on the code points 0 to 255.\<close>

definition py_isspace :: "char \<Rightarrow> bool" where
  "py_isspace c =
     (let n = (of_char c :: nat)
      in (9 \<le> n \<and> n \<le> 13) \<or> (28 \<le> n \<and> n \<le> 32) \<or> n = 133 \<or> n = 160)"

definition strip :: "string \<Rightarrow> string" where
  "strip s = rev (dropWhile py_isspace (rev (dropWhile py_isspace s)))"

definition py_isdigit_char :: "char \<Rightarrow> bool" where
  "py_isdigit_char c =
     (let n = (of_char c :: nat)
      in (48 \<le> n \<and> n \<le> 57) \<or> n = 178 \<or> n = 179 \<or> n = 185)"

definition isdigit :: "string \<Rightarrow> bool" where
  "isdigit s = (s \<noteq> [] \<and> list_all py_isdigit_char s)"

text \<open>
  The dictionary \<^verbatim>\<open>_xf_geo_performance\<close> builds for a row; \<^verbatim>\<open>state\<close> and \<^verbatim>\<open>state_code\<close>
  hold the criterion identifier until the enricher replaces them.
\<close>

record geo_rec =
  g_id :: string
  g_date :: string
  g_campaign_id :: string
  g_state :: string
  g_state_code :: string
  g_dma :: string
  g_spend :: rat
  g_impressions :: int
  g_clicks :: int
  g_conversions :: rat
  g_conversion_value :: rat
  g_ctr :: rat
  g_cpc :: rat
  g_cpa :: rat
  g_roas :: rat
  g_conv_rate :: rat

text \<open>The sorted set of the stripped \<^verbatim>\<open>state_code\<close> values that are all digits.\<close>

definition geo_criterion_ids :: "geo_rec list \<Rightarrow> string list" where
  "geo_criterion_ids records =
     sort (remdups (map (\<lambda>r. strip (g_state_code r))
                        (filter (\<lambda>r. isdigit (strip (g_state_code r))) records)))"

text \<open>The body of the second loop of \<^verbatim>\<open>_enrich_geo_records\<close>, for one record.\<close>

definition enrich_rec :: "(string \<rightharpoonup> geo_info) \<Rightarrow> geo_rec \<Rightarrow> geo_rec" where
  "enrich_rec details rec =
     (let raw_id = strip (g_state_code rec)
      in case details raw_id of
           None \<Rightarrow> rec
         | Some info \<Rightarrow>
             (let name = gi_name info;
                  country_code = gi_country_code info;
                  target_type = gi_target_type info;
                  canonical_name = gi_canonical_name info;
                  rec1 = (if country_code = ''US'' \<and> target_type \<in> {''State'', ''Province''}
                          then rec\<lparr> g_state := name,
                                    g_state_code := dict_get US_STATE_CODE_BY_NAME name raw_id \<rparr>
                          else rec\<lparr> g_state := (if canonical_name \<noteq> [] then canonical_name
                                                  else name),
                                    g_state_code := raw_id \<rparr>)
              in rec1\<lparr> g_dma := target_type \<rparr>))"

definition u_enrich_geo_records ::
  "(string \<Rightarrow> exn + geo_target_constant list list) \<Rightarrow> geo_rec list
     \<Rightarrow> string list \<times> (exn + geo_rec list)" where
  "u_enrich_geo_records ga records =
     (let criterion_ids = geo_criterion_ids records
      in case u_geo_target_details ga criterion_ids of
           (queries, res) \<Rightarrow>
             (queries, bind_exn res (\<lambda>details. Inr (map (enrich_rec details) records))))"


section \<open>Sync orchestration\<close>

text \<open>\<^verbatim>\<open>_date_condition(date_from, date_to)\<close>.\<close>

definition u_date_condition :: "string \<Rightarrow> string \<Rightarrow> string" where
  "u_date_condition date_from date_to =
     (if date_from = date_to then ''segments.date = '' @ [CHR 0x27] @ date_from @ [CHR 0x27]
      else ''segments.date BETWEEN '' @ [CHR 0x27] @ date_from @ [CHR 0x27]
           @ '' AND '' @ [CHR 0x27] @ date_to @ [CHR 0x27])"

text \<open>
  An entry of \<^verbatim>\<open>ENTITIES\<close>: the name of the report type, which is also its table, the
  query template as a function of the date condition
  (\<^verbatim>\<open>cfg["query"].format(date_condition=...)\<close>), and the transform. The catalog is a
  parameter of the orchestrator, which reads nothing else of it; \<open>ENTITY_NAMES\<close> are the
  names of the eleven entries of the source, in its order.
\<close>

record ('row, 'rec) entity =
  e_name :: string
  e_query :: "string \<Rightarrow> string"
  e_transform :: "'row list \<Rightarrow> exn + 'rec list"

definition ENTITY_NAMES :: "string list" where
  "ENTITY_NAMES =
     [''campaigns'', ''keywords'', ''search_terms'', ''ads'', ''geo_performance'',
      ''device_performance'', ''hourly_performance'', ''auction_insights'',
      ''quality_score_snapshots'', ''conversion_actions'', ''landing_pages'']"

text \<open>The row \<^verbatim>\<open>update\<close> writes to \<^verbatim>\<open>sync_log\<close> (the completion time is left out).\<close>

record log_payload =
  status :: string
  records_synced :: nat
  error_message :: "string option"

text \<open>
  What a run meets outside the program:
  \<^item> \<open>ga\<close>, the advertising API, as for \<open>u_run_gaql\<close>;
  \<^item> \<open>geo_enrich\<close>, the outcome of \<^verbatim>\<open>_enrich_geo_records(ga, records)\<close> on records of the
    catalog's record type;
  \<^item> \<open>rec_key\<close>, the pair \<^verbatim>\<open>(rec["id"], rec["date"])\<close> of a record;
  \<^item> \<open>store_upsert\<close>, the store's upsert, as for \<open>u_upsert\<close>;
  \<^item> \<open>log_insert\<close>, the outcome of the insert of the \<^verbatim>\<open>sync_log\<close> row in state
    \<^verbatim>\<open>running\<close>: the exception it raises, or the \<^verbatim>\<open>id\<close> of each row of \<^verbatim>\<open>sync_res.data\<close>;
  \<^item> \<open>log_update\<close>, the outcome of the final update of the row with a given identifier,
    \<open>Some e\<close> when it raises \<open>e\<close>;
  \<^item> \<open>yesterday\<close>, the previous UTC day as \<^verbatim>\<open>%Y-%m-%d\<close>.
\<close>

record ('row, 'rec) world =
  w_ga :: "string \<Rightarrow> exn + 'row list list"
  w_geo_enrich :: "'rec list \<Rightarrow> exn + 'rec list"
  w_rec_key :: "'rec \<Rightarrow> string \<times> string"
  w_store_upsert :: "string \<Rightarrow> 'rec list \<Rightarrow> exn option"
  w_log_insert :: "exn + int list"
  w_log_update :: "int \<Rightarrow> log_payload \<Rightarrow> exn option"
  w_yesterday :: string

text \<open>The body of the \<^verbatim>\<open>try\<close> for one entity: the number of rows upserted, or the exception.\<close>

definition entity_try :: "('row, 'rec) world \<Rightarrow> string \<Rightarrow> ('row, 'rec) entity \<Rightarrow> exn + nat" where
  "entity_try w date_cond cfg =
     (let query = e_query cfg date_cond
      in bind_exn (u_run_gaql (w_ga w) query) (\<lambda>rows.
         bind_exn (e_transform cfg rows) (\<lambda>records.
         bind_exn (if e_name cfg = ''geo_performance'' then w_geo_enrich w records
                   else Inr records) (\<lambda>records.
         u_upsert (w_rec_key w) (w_store_upsert w) (e_name cfg) records))))"

text \<open>
  The loop over the catalog, on the state \<^verbatim>\<open>(total_records, errors)\<close>: \<^verbatim>\<open>except Exception\<close>
  appends \<^verbatim>\<open>f"{name}: {exc}"\<close> and the loop goes on.
\<close>

fun entity_loop ::
  "('row, 'rec) world \<Rightarrow> string \<Rightarrow> ('row, 'rec) entity list \<Rightarrow> nat \<times> string list
     \<Rightarrow> nat \<times> string list" where
  "entity_loop w date_cond [] (total_records, errors) = (total_records, errors)"
| "entity_loop w date_cond (cfg # rest) (total_records, errors) =
     (case entity_try w date_cond cfg of
        Inr n \<Rightarrow> entity_loop w date_cond rest (total_records + n, errors)
      | Inl exc \<Rightarrow>
          entity_loop w date_cond rest
            (total_records, errors @ [e_name cfg @ '': '' @ exc_str exc]))"

text \<open>
  How \<^verbatim>\<open>sync\<close> ends: it returns, it calls \<^verbatim>\<open>sys.exit(1)\<close>, or an exception leaves it.
  The exit code of the process follows: an uncaught exception ends Python with code 1.
\<close>

datatype ending = Returned | SysExit int | Uncaught exn

fun exit_code :: "ending \<Rightarrow> int" where
  "exit_code Returned = 0"
| "exit_code (SysExit n) = n"
| "exit_code (Uncaught e) = 1"

text \<open>
  A run that got past the insert: the identifier captured, the state after the loop, the
  update issued to \<^verbatim>\<open>sync_log\<close> if any (identifier and row), and how the run ended.
\<close>

record sync_run =
  run_sync_id :: "int option"
  run_total_records :: nat
  run_errors :: "string list"
  run_update :: "(int \<times> log_payload) option"
  run_ending :: ending

text \<open>
  The insert into \<^verbatim>\<open>sync_log\<close> is outside any \<^verbatim>\<open>try\<close>: an exception it raises leaves
  \<^verbatim>\<open>sync\<close> before the loop is reached. The two clients are taken as constructed: their
  factories, which read the configuration of the process, come before the insert.
\<close>

datatype sync_result = InsertRaised exn | Ran sync_run

fun process_exit_code :: "sync_result \<Rightarrow> int" where
  "process_exit_code (InsertRaised e) = 1"
| "process_exit_code (Ran r) = exit_code (run_ending r)"

text \<open>\<^verbatim>\<open>a or b\<close> on an optional string: \<^verbatim>\<open>None\<close> and the empty string are falsy.\<close>

definition or_str :: "string option \<Rightarrow> string \<Rightarrow> string" where
  "or_str a b = (case a of None \<Rightarrow> b | Some s \<Rightarrow> if s \<noteq> [] then s else b)"

definition sync ::
  "('row, 'rec) world \<Rightarrow> ('row, 'rec) entity list \<Rightarrow> string option \<Rightarrow> string option
     \<Rightarrow> sync_result" where
  "sync w ENTITIES date_from date_to =
     (let d_from = or_str date_from (w_yesterday w);
          d_to = or_str date_to d_from;
          date_cond = u_date_condition d_from d_to
      in case w_log_insert w of
           Inl e \<Rightarrow> InsertRaised e
         | Inr data \<Rightarrow>
             (let sync_id = (case data of [] \<Rightarrow> None | row # _ \<Rightarrow> Some row)
              in case entity_loop w date_cond ENTITIES (0, []) of
                   (total_records, errors) \<Rightarrow>
                     (let payload = \<lparr> status = (if errors \<noteq> [] then ''error'' else ''success''),
                                       records_synced = total_records,
                                       error_message = (if errors \<noteq> [] then Some (join ''; '' errors)
                                                        else None) \<rparr>;
                          upd = (case sync_id of
                                   None \<Rightarrow> None
                                 | Some i \<Rightarrow> if i \<noteq> 0 then Some (i, payload) else None);
                          raised = (case upd of
                                      None \<Rightarrow> None
                                    | Some (i, p) \<Rightarrow> w_log_update w i p)
                      in Ran \<lparr> run_sync_id = sync_id,
                               run_total_records = total_records,
                               run_errors = errors,
                               run_update = upd,
                               run_ending = (case raised of
                                               Some e \<Rightarrow> Uncaught e
                                             | None \<Rightarrow> if errors \<noteq> [] then SysExit 1
                                                       else Returned) \<rparr>)))"


section \<open>Reference definitions and example inputs\<close>

text \<open>
  What follows is not part of the program: closed forms the proofs compare the program
  with, and the concrete inputs at which the theorems are instantiated.
\<close>

text \<open>The record of a campaign row, with the three guarded divisions carried out.\<close>

definition campaign_record :: "campaign_row \<Rightarrow> campaign_rec" where
  "campaign_record r =
     (let m = row_metrics r; spend = u_micros (cost_micros m)
      in \<lparr> c_id = str_int (campaign_id r),
           c_date = segments_date r,
           c_campaign_name = campaign_name r,
           c_product = infer_product (campaign_name r),
           c_intent_bucket = infer_intent_bucket (campaign_name r),
           c_status = dict_get STATUS_MAP (u_ename (campaign_status r)) ''paused'',
           c_spend = spend,
           c_impressions = impressions m,
           c_clicks = clicks m,
           c_conversions = conversions m,
           c_conversion_value = conversions_value m,
           c_ctr = ctr m,
           c_cpc = u_micros (average_cpc m),
           c_cpa = (if conversions m = 0 then 0 else spend / conversions m),
           c_roas = (if spend = 0 then 0 else conversions_value m / spend),
           c_conv_rate = (if clicks m = 0 then 0 else conversions m / of_int (clicks m)),
           c_search_impression_share = or_zero (search_impression_share m),
           c_lost_is_budget = or_zero (search_budget_lost_impression_share m),
           c_lost_is_rank = or_zero (search_rank_lost_impression_share m) \<rparr>)"

definition example_metrics :: metrics where
  "example_metrics =
     \<lparr> cost_micros = 0, impressions = 100, clicks = 0, conversions = 0, conversions_value = 0,
       ctr = 0, average_cpc = 0, search_impression_share = 0,
       search_budget_lost_impression_share = 0, search_rank_lost_impression_share = 0 \<rparr>"

definition example_row_no_conversions :: campaign_row where
  "example_row_no_conversions =
     \<lparr> campaign_id = 101, campaign_name = ''Term Life Leads Q1'', campaign_status = Named ''ENABLED'',
       segments_date = ''2026-02-17'',
       row_metrics = example_metrics\<lparr> cost_micros := 5000000 \<rparr> \<rparr>"

definition example_row_no_spend :: campaign_row where
  "example_row_no_spend =
     \<lparr> campaign_id = 102, campaign_name = ''Dental-Network-Nonbrand'', campaign_status = Named ''PAUSED'',
       segments_date = ''2026-02-17'',
       row_metrics = example_metrics\<lparr> clicks := 4, conversions := 2, conversions_value := 10 \<rparr> \<rparr>"

text \<open>
  The intent bucket as the specification words it: a brand indicator yields Brand unless
  a non-brand keyword negates it, then group, lead-gen and midfunnel keywords in that
  order, with Education/Midfunnel as the fallback.
\<close>

definition brand_indicator :: "string \<Rightarrow> bool" where
  "brand_indicator t = any_in [''google_brand'', ''-brand-'', ''-branded''] t"

text \<open>The two rules of the code that yield Brand, on the lower-cased text.\<close>

definition brand_rule :: "string \<Rightarrow> bool" where
  "brand_rule t =
     (contains ''google_brand'' t \<or>
      (\<not> has_nonbrand t \<and> (contains ''-brand-'' t \<or> contains ''-branded'' t)))"

definition spec_intent_bucket :: "string \<Rightarrow> string" where
  "spec_intent_bucket text =
     (let t = lower text
      in if brand_indicator t \<and> \<not> has_nonbrand t then ''Brand''
         else if any_in [''group'', ''employer'', ''worksite'', ''abm-''] t then ''Group''
         else if any_in [''leadgen'', ''conversion'', ''quote'', ''quotes''] t
           then ''Nonbrand Lead Gen''
         else ''Education/Midfunnel'')"

text \<open>
  Search terms: the spend and the CPA of a row, the tuple of the first pass, the CPA
  sample of a batch (over all its rows) and the median of a sample, 0 when it is empty.
\<close>

definition row_spend :: "search_term_row \<Rightarrow> rat" where
  "row_spend r = of_int (cost_micros (st_metrics r)) / 1000000"

definition row_cpa :: "search_term_row \<Rightarrow> rat" where
  "row_cpa r = (if conversions (st_metrics r) = 0 then 0
                else row_spend r / conversions (st_metrics r))"

definition base_of :: "search_term_row \<Rightarrow> rat \<times> rat \<times> rat \<times> search_term_row" where
  "base_of r = (row_spend r, conversions (st_metrics r), row_cpa r, r)"

definition cpa_sample :: "search_term_row list \<Rightarrow> rat list" where
  "cpa_sample rows =
     map row_cpa (filter (\<lambda>r. conversions (st_metrics r) > 0 \<and> row_cpa r > 0) rows)"

definition median_of :: "rat list \<Rightarrow> rat" where
  "median_of xs =
     (if xs = [] then 0
      else if odd (length xs) then sort xs ! (length xs div 2)
      else (sort xs ! (length xs div 2 - 1) + sort xs ! (length xs div 2)) / 2)"

definition batch_median_cpa :: "search_term_row list \<Rightarrow> rat" where
  "batch_median_cpa rows = median_of (cpa_sample rows)"

text \<open>The fields of an emitted record the labelling rule speaks of, and their source in a row.\<close>

definition rec_figures :: "search_term_rec \<Rightarrow> string \<times> rat \<times> rat \<times> rat" where
  "rec_figures x = (s_search_term x, s_spend x, s_conversions x, s_cpa x)"

definition row_figures :: "search_term_row \<Rightarrow> string \<times> rat \<times> rat \<times> rat" where
  "row_figures r = (st_search_term r, row_spend r, conversions (st_metrics r), row_cpa r)"

definition example_term_row :: "string \<Rightarrow> int \<Rightarrow> rat \<Rightarrow> search_term_row" where
  "example_term_row term cost convs =
     \<lparr> st_search_term = term, st_campaign_id = 101, st_campaign_name = ''Term Life Leads Q1'',
       st_ad_group_id = 7, st_ad_group_name = ''Quotes'', st_match_type = Named ''EXACT'',
       st_date = ''2026-02-17'',
       st_metrics = example_metrics\<lparr> cost_micros := cost, clicks := 10, conversions := convs \<rparr> \<rparr>"

definition example_batch :: "search_term_row list" where
  "example_batch =
     [example_term_row ''life quote'' 50000000 2,
      example_term_row ''cheap insurance'' 150000000 0,
      example_term_row ''whole life'' 120000000 1]"

definition example_kept_row :: search_term_row where
  "example_kept_row = example_term_row ''life quote'' 50000000 2"

definition example_skipped_row :: search_term_row where
  "example_skipped_row = example_term_row [] 100000000 1"

text \<open>
  Deduplication: index \<open>i\<close> holds the last record of its key when no later record has
  that key.
\<close>

definition is_last :: "('r \<Rightarrow> string \<times> string) \<Rightarrow> 'r list \<Rightarrow> nat \<Rightarrow> bool" where
  "is_last key rs i = (\<forall>j \<in> {i + 1 ..< length rs}. key (rs ! j) \<noteq> key (rs ! i))"

text \<open>Example records for deduplication: identifier, date and a payload.\<close>

definition example_key :: "string \<times> string \<times> nat \<Rightarrow> string \<times> string" where
  "example_key r = (fst r, fst (snd r))"

definition example_records :: "(string \<times> string \<times> nat) list" where
  "example_records =
     [(''a'', ''2026-02-17'', 1), (''b'', ''2026-02-17'', 2),
      (''a'', ''2026-02-17'', 3), (''a'', ''2026-02-18'', 4)]"

definition example_distinct_records :: "(string \<times> string \<times> nat) list" where
  "example_distinct_records = [(''a'', ''2026-02-17'', 1), (''a'', ''2026-02-18'', 4)]"

text \<open>
  Geo lookups: the query of a chunk, the rows the lookups of a list of chunks return
  (in order), and the details kept of a row.
\<close>

definition chunk_query :: "string list \<Rightarrow> string" where
  "chunk_query chunk = geo_query (join '', '' chunk)"

definition lookup_rows ::
  "(string \<Rightarrow> exn + geo_target_constant list list) \<Rightarrow> string list list \<Rightarrow> geo_target_constant list" where
  "lookup_rows ga chunks =
     concat (map (\<lambda>c. case u_run_gaql ga (chunk_query c) of Inl e \<Rightarrow> [] | Inr rows \<Rightarrow> rows) chunks)"

definition info_of :: "geo_target_constant \<Rightarrow> geo_info" where
  "info_of geo =
     \<lparr> gi_name = gt_name geo,
       gi_canonical_name = gt_canonical_name geo,
       gi_target_type = u_ename (gt_target_type geo),
       gi_country_code = gt_country_code geo \<rparr>"

text \<open>
  Example geo inputs. The API answers every lookup with the same three rows: a US state
  of the static table, a US state missing from it, and a province outside the US whose
  canonical name is empty.
\<close>

definition example_geo_rows :: "geo_target_constant list" where
  "example_geo_rows =
     [\<lparr> gt_id = 21137, gt_name = ''California'', gt_canonical_name = ''California,United States'',
        gt_target_type = Plain ''State'', gt_country_code = ''US'' \<rparr>,
      \<lparr> gt_id = 21136, gt_name = ''Puerto Rico'', gt_canonical_name = ''Puerto Rico,United States'',
        gt_target_type = Plain ''State'', gt_country_code = ''US'' \<rparr>,
      \<lparr> gt_id = 20121, gt_name = ''Ontario'', gt_canonical_name = [],
        gt_target_type = Plain ''Province'', gt_country_code = ''CA'' \<rparr>]"

definition example_geo_api :: "string \<Rightarrow> exn + geo_target_constant list list" where
  "example_geo_api query = Inr [example_geo_rows]"

definition example_geo_rec :: "string \<Rightarrow> geo_rec" where
  "example_geo_rec code =
     \<lparr> g_id = ''0f1e2d3c4b5a6978'', g_date = ''2026-02-17'', g_campaign_id = ''101'',
       g_state = code, g_state_code = code, g_dma = ''LOCATION_OF_PRESENCE'',
       g_spend = 5, g_impressions = 100, g_clicks = 10, g_conversions = 1,
       g_conversion_value = 20, g_ctr = 1 / 10, g_cpc = 1 / 2, g_cpa = 5, g_roas = 4,
       g_conv_rate = 1 / 10 \<rparr>"

definition example_geo_records :: "geo_rec list" where
  "example_geo_records =
     [example_geo_rec ''21137'', example_geo_rec ''21136'', example_geo_rec ''20121'',
      example_geo_rec ''2840'']"

text \<open>The three fields the enricher writes.\<close>

definition geo_fields :: "geo_rec \<Rightarrow> string \<times> string \<times> string" where
  "geo_fields r = (g_state r, g_state_code r, g_dma r)"

definition example_many_ids :: "string list" where
  "example_many_ids = map str_nat [1000 ..< 1450]"

text \<open>
  Orchestration: the date condition a run uses, and what one entity adds to the state of
  the loop, its count when its \<^verbatim>\<open>try\<close> body returns and its message when it raises.
\<close>

definition date_cond_of :: "('row, 'rec) world \<Rightarrow> string option \<Rightarrow> string option \<Rightarrow> string" where
  "date_cond_of w date_from date_to =
     u_date_condition (or_str date_from (w_yesterday w))
                      (or_str date_to (or_str date_from (w_yesterday w)))"

definition entity_count :: "('row, 'rec) world \<Rightarrow> string \<Rightarrow> ('row, 'rec) entity \<Rightarrow> nat" where
  "entity_count w date_cond cfg =
     (case entity_try w date_cond cfg of Inl exc \<Rightarrow> 0 | Inr n \<Rightarrow> n)"

definition entity_error :: "('row, 'rec) world \<Rightarrow> string \<Rightarrow> ('row, 'rec) entity \<Rightarrow> string list" where
  "entity_error w date_cond cfg =
     (case entity_try w date_cond cfg of
        Inl exc \<Rightarrow> [e_name cfg @ '': '' @ exc_str exc]
      | Inr n \<Rightarrow> [])"

text \<open>
  Example runs. The catalog has the eleven names of the source, each with the identity
  as its transform. The failing API raises on the campaigns query and returns the example
  records on any other; the quiet API returns them on every query; the store accepts every
  batch. The worlds differ in the API and in what the insert into \<^verbatim>\<open>sync_log\<close> and the
  final update do.
\<close>

definition example_entity :: "string \<Rightarrow> (string \<times> string \<times> nat, string \<times> string \<times> nat) entity" where
  "example_entity name =
     \<lparr> e_name = name, e_query = (\<lambda>date_cond. name @ '' WHERE '' @ date_cond),
       e_transform = Inr \<rparr>"

definition example_catalog :: "(string \<times> string \<times> nat, string \<times> string \<times> nat) entity list" where
  "example_catalog = map example_entity ENTITY_NAMES"

definition example_failing_api :: "string \<Rightarrow> exn + (string \<times> string \<times> nat) list list" where
  "example_failing_api query =
     (if prefix ''campaigns'' query then Inl (Raised ''quota exceeded'')
      else Inr [example_records])"

definition example_quiet_api :: "string \<Rightarrow> exn + (string \<times> string \<times> nat) list list" where
  "example_quiet_api query = Inr [example_records]"

definition example_world ::
  "(string \<Rightarrow> exn + (string \<times> string \<times> nat) list list) \<Rightarrow> exn + int list \<Rightarrow> exn option
     \<Rightarrow> (string \<times> string \<times> nat, string \<times> string \<times> nat) world" where
  "example_world api inserted updated =
     \<lparr> w_ga = api, w_geo_enrich = Inr, w_rec_key = example_key,
       w_store_upsert = (\<lambda>table chunk. None), w_log_insert = inserted,
       w_log_update = (\<lambda>i payload. updated), w_yesterday = ''2026-02-16'' \<rparr>"


section \<open>Derived ratios\<close>

lemma u_div_total: "u_div n d = Inr (if d = 0 then 0 else n / d)"
  by (simp add: u_div_def py_truediv_def)

lemma map_exn_total:
  assumes "\<And>r. r \<in> set rows \<Longrightarrow> f r = Inr (g r)"
  shows "map_exn f rows = Inr (map g rows)"
  using assms by (induction rows) (simp_all add: bind_exn_def)

lemma xf_campaign_total: "xf_campaign r = Inr (campaign_record r)"
  by (simp add: xf_campaign_def campaign_record_def Let_def bind_exn_def u_div_total)

lemma u_xf_campaigns_total: "u_xf_campaigns rows = Inr (map campaign_record rows)"
  unfolding u_xf_campaigns_def by (rule map_exn_total) (rule xf_campaign_total)

text \<open>
  C1. The guarded division never raises and gives 0 on a zero denominator, the quotient
  otherwise. The campaigns transform therefore returns a record for every row, and in
  the record of row \<open>i\<close> the field \<open>cpa\<close> is \<open>spend / conversions\<close>, or 0 when the
  conversions are 0; \<open>roas\<close> is \<open>conversion_value / spend\<close>, or 0 when the spend is 0;
  \<open>conv_rate\<close> is \<open>conversions / clicks\<close>, or 0 when the clicks are 0.
\<close>

theorem derived_ratios_zero_guarded:
  "u_div n 0 = Inr 0 \<and>
   (\<exists>v. u_div n d = Inr v \<and> (d \<noteq> 0 \<longrightarrow> v = n / d)) \<and>
   (\<exists>out. u_xf_campaigns rows = Inr out \<and> length out = length rows \<and>
      (\<forall>i < length rows.
         c_spend (out ! i) = of_int (cost_micros (row_metrics (rows ! i))) / 1000000 \<and>
         c_conversions (out ! i) = conversions (row_metrics (rows ! i)) \<and>
         c_conversion_value (out ! i) = conversions_value (row_metrics (rows ! i)) \<and>
         c_clicks (out ! i) = clicks (row_metrics (rows ! i)) \<and>
         c_cpa (out ! i) = (if c_conversions (out ! i) = 0 then 0
                            else c_spend (out ! i) / c_conversions (out ! i)) \<and>
         c_roas (out ! i) = (if c_spend (out ! i) = 0 then 0
                             else c_conversion_value (out ! i) / c_spend (out ! i)) \<and>
         c_conv_rate (out ! i) = (if c_clicks (out ! i) = 0 then 0
                                  else c_conversions (out ! i) / of_int (c_clicks (out ! i)))))"
proof -
  have "\<forall>i < length rows.
         c_spend (map campaign_record rows ! i) = of_int (cost_micros (row_metrics (rows ! i))) / 1000000 \<and>
         c_conversions (map campaign_record rows ! i) = conversions (row_metrics (rows ! i)) \<and>
         c_conversion_value (map campaign_record rows ! i) = conversions_value (row_metrics (rows ! i)) \<and>
         c_clicks (map campaign_record rows ! i) = clicks (row_metrics (rows ! i)) \<and>
         c_cpa (map campaign_record rows ! i) =
           (if c_conversions (map campaign_record rows ! i) = 0 then 0
            else c_spend (map campaign_record rows ! i) / c_conversions (map campaign_record rows ! i)) \<and>
         c_roas (map campaign_record rows ! i) =
           (if c_spend (map campaign_record rows ! i) = 0 then 0
            else c_conversion_value (map campaign_record rows ! i) / c_spend (map campaign_record rows ! i)) \<and>
         c_conv_rate (map campaign_record rows ! i) =
           (if c_clicks (map campaign_record rows ! i) = 0 then 0
            else c_conversions (map campaign_record rows ! i) / of_int (c_clicks (map campaign_record rows ! i)))"
    by (simp add: campaign_record_def Let_def u_micros_def)
  then have "\<exists>out. u_xf_campaigns rows = Inr out \<and> length out = length rows \<and>
      (\<forall>i < length rows.
         c_spend (out ! i) = of_int (cost_micros (row_metrics (rows ! i))) / 1000000 \<and>
         c_conversions (out ! i) = conversions (row_metrics (rows ! i)) \<and>
         c_conversion_value (out ! i) = conversions_value (row_metrics (rows ! i)) \<and>
         c_clicks (out ! i) = clicks (row_metrics (rows ! i)) \<and>
         c_cpa (out ! i) = (if c_conversions (out ! i) = 0 then 0
                            else c_spend (out ! i) / c_conversions (out ! i)) \<and>
         c_roas (out ! i) = (if c_spend (out ! i) = 0 then 0
                             else c_conversion_value (out ! i) / c_spend (out ! i)) \<and>
         c_conv_rate (out ! i) = (if c_clicks (out ! i) = 0 then 0
                                  else c_conversions (out ! i) / of_int (c_clicks (out ! i))))"
    using u_xf_campaigns_total [of rows] by (intro exI [of _ "map campaign_record rows"]) simp
  moreover have "u_div n 0 = Inr 0" by (simp add: u_div_total)
  moreover have "\<exists>v. u_div n d = Inr v \<and> (d \<noteq> 0 \<longrightarrow> v = n / d)" by (simp add: u_div_total)
  ultimately show ?thesis by blast
qed

theorem derived_ratios_zero_guarded_witness:
  "u_div 10 4 = Inr (5 / 2) \<and>
   (\<exists>out. u_xf_campaigns [example_row_no_conversions, example_row_no_spend] = Inr out \<and>
         length out = 2 \<and>
         c_spend (out ! 0) = 5 \<and> c_cpa (out ! 0) = 0 \<and> c_conv_rate (out ! 0) = 0 \<and>
         c_spend (out ! 1) = 0 \<and> c_roas (out ! 1) = 0 \<and> c_conv_rate (out ! 1) = 1 / 2)"
proof -
  note inst = derived_ratios_zero_guarded [of 10 4 "[example_row_no_conversions, example_row_no_spend]"]
  from inst obtain v where "u_div 10 4 = Inr v" and "(4 :: rat) \<noteq> 0 \<longrightarrow> v = 10 / 4"
    by blast
  then have quotient: "u_div 10 4 = Inr (5 / 2)" by simp
  from inst
  obtain out where out: "u_xf_campaigns [example_row_no_conversions, example_row_no_spend] = Inr out"
      "length out = length [example_row_no_conversions, example_row_no_spend]"
    and rows: "\<forall>i < length [example_row_no_conversions, example_row_no_spend].
         c_spend (out ! i) = of_int (cost_micros (row_metrics ([example_row_no_conversions, example_row_no_spend] ! i))) / 1000000 \<and>
         c_conversions (out ! i) = conversions (row_metrics ([example_row_no_conversions, example_row_no_spend] ! i)) \<and>
         c_conversion_value (out ! i) = conversions_value (row_metrics ([example_row_no_conversions, example_row_no_spend] ! i)) \<and>
         c_clicks (out ! i) = clicks (row_metrics ([example_row_no_conversions, example_row_no_spend] ! i)) \<and>
         c_cpa (out ! i) = (if c_conversions (out ! i) = 0 then 0
                            else c_spend (out ! i) / c_conversions (out ! i)) \<and>
         c_roas (out ! i) = (if c_spend (out ! i) = 0 then 0
                             else c_conversion_value (out ! i) / c_spend (out ! i)) \<and>
         c_conv_rate (out ! i) = (if c_clicks (out ! i) = 0 then 0
                                  else c_conversions (out ! i) / of_int (c_clicks (out ! i)))"
    by blast
  have r0: "c_spend (out ! 0) = 5 \<and> c_cpa (out ! 0) = 0 \<and> c_conv_rate (out ! 0) = 0"
    using rows [rule_format, of 0]
    by (simp add: example_row_no_conversions_def example_metrics_def)
  have r1: "c_spend (out ! 1) = 0 \<and> c_roas (out ! 1) = 0 \<and> c_conv_rate (out ! 1) = 1 / 2"
    using rows [rule_format, of 1]
    by (simp add: example_row_no_spend_def example_metrics_def)
  from out r0 r1 have "\<exists>out. u_xf_campaigns [example_row_no_conversions, example_row_no_spend] = Inr out \<and>
         length out = 2 \<and>
         c_spend (out ! 0) = 5 \<and> c_cpa (out ! 0) = 0 \<and> c_conv_rate (out ! 0) = 0 \<and>
         c_spend (out ! 1) = 0 \<and> c_roas (out ! 1) = 0 \<and> c_conv_rate (out ! 1) = 1 / 2"
    by simp
  with quotient show ?thesis by (rule conjI)
qed


section \<open>Identifiers\<close>

lemma nibble_less: "unat ((d :: u32) AND 15) < 16"
proof -
  have "(d AND 15) \<le> 15" by (rule word_and_le1)
  then have "unat (d AND 15) \<le> unat (15 :: u32)" by (simp add: word_le_nat_alt)
  then show ?thesis by simp
qed

lemma hex_digit_in: "hex_digit d \<in> set ''0123456789abcdef''"
proof -
  have "unat (d AND 15) < length ''0123456789abcdef''" using nibble_less [of d] by simp
  then show ?thesis unfolding hex_digit_def by (rule nth_mem)
qed

lemma length_hex_word: "length (hex_word w) = 8"
  by (simp add: hex_word_def)

lemma set_hex_word: "set (hex_word w) \<subseteq> set ''0123456789abcdef''"
  using hex_digit_in by (auto simp: hex_word_def)

lemma sha_state_cases:
  obtains a b c d e f g h where "(st :: sha_state) = (a, b, c, d, e, f, g, h)"
  by (metis surj_pair)

lemma length_hexdigest: "length (hexdigest st) = 64"
  by (cases st rule: sha_state_cases) (simp add: length_hex_word)

lemma set_hexdigest: "set (hexdigest st) \<subseteq> set ''0123456789abcdef''"
proof (cases st rule: sha_state_cases)
  case (1 a b c d e f g h)
  show ?thesis unfolding 1 hexdigest.simps set_append
    using set_hex_word by blast
qed

text \<open>
  C9. The identifier is the first 16 hexadecimal digits of the SHA-256 digest of the
  printed parts joined by \<open>|\<close>; it has 16 characters, each a digit or a letter a to f;
  it is a function of the joined text alone, so equal parts give equal identifiers.
\<close>

theorem make_id_deterministic_hex16:
  "u_make_id parts = take 16 (hexdigest (sha256 (encode (join ''|'' (map str_part parts))))) \<and>
   length (u_make_id parts) = 16 \<and>
   list_all (\<lambda>c. c \<in> set ''0123456789abcdef'') (u_make_id parts) \<and>
   (join ''|'' (map str_part parts) = join ''|'' (map str_part parts')
      \<longrightarrow> u_make_id parts = u_make_id parts')"
proof -
  have "set (u_make_id parts) \<subseteq> set ''0123456789abcdef''"
    unfolding u_make_id_def Let_def using set_hexdigest set_take_subset by fast
  then show ?thesis
    by (simp add: u_make_id_def Let_def length_hexdigest list_all_iff subset_iff del: set_simps)
qed

theorem make_id_deterministic_hex16_witness:
  "join ''|'' (map str_part [PInt 123, PStr ''dental'']) = ''123|dental'' \<and>
   join ''|'' (map str_part [PStr ''123'', PStr ''dental'']) = ''123|dental'' \<and>
   u_make_id [PInt 123, PStr ''dental''] = u_make_id [PStr ''123'', PStr ''dental''] \<and>
   length (u_make_id [PInt 123, PStr ''dental'']) = 16"
proof -
  have a: "join ''|'' (map str_part [PInt 123, PStr ''dental'']) = ''123|dental''"
    by (simp add: str_int_def str_nat.simps digit_chr_def)
  have b: "join ''|'' (map str_part [PStr ''123'', PStr ''dental'']) = ''123|dental''"
    by simp
  note inst = make_id_deterministic_hex16
    [of "[PInt 123, PStr ''dental'']" "[PStr ''123'', PStr ''dental'']"]
  from inst have
    "join ''|'' (map str_part [PInt 123, PStr ''dental''])
       = join ''|'' (map str_part [PStr ''123'', PStr ''dental''])
     \<longrightarrow> u_make_id [PInt 123, PStr ''dental''] = u_make_id [PStr ''123'', PStr ''dental'']"
    by blast
  with a b have "u_make_id [PInt 123, PStr ''dental''] = u_make_id [PStr ''123'', PStr ''dental'']"
    by simp
  moreover from inst have "length (u_make_id [PInt 123, PStr ''dental'']) = 16"
    by blast
  ultimately have "u_make_id [PInt 123, PStr ''dental''] = u_make_id [PStr ''123'', PStr ''dental'']
    \<and> length (u_make_id [PInt 123, PStr ''dental'']) = 16" by simp
  with a b show ?thesis by blast
qed


section \<open>Intent buckets\<close>

lemma prefix_contains: "prefix k t \<Longrightarrow> contains k t"
  by (cases t) simp_all

lemma startswith_contains: "startswith t k \<Longrightarrow> contains k t"
  by (simp add: startswith_def prefix_contains)

lemma contains_append_left: "contains k t \<Longrightarrow> contains k (p @ t)"
  by (induction p) simp_all

lemma endswith_contains: "endswith t k \<Longrightarrow> contains k t"
proof -
  assume "endswith t k"
  then have "suffix k t" by (simp add: endswith_def suffix_to_prefix)
  then obtain p where "t = p @ k" by (auto simp: suffix_def)
  moreover have "contains k k" by (rule prefix_contains) simp
  ultimately show ?thesis by (simp add: contains_append_left)
qed

text \<open>
  C4, as the code has it. On the lower-cased text: \<open>google_brand\<close> yields Brand, whether
  or not a non-brand keyword occurs; \<open>-brand-\<close> and \<open>-branded\<close> yield Brand unless a
  non-brand keyword occurs; failing these, a group keyword yields Group; failing that, a
  lead-gen keyword yields Nonbrand Lead Gen; everything else is Education/Midfunnel. So
  the result is the one the specification words, except under \<open>google_brand\<close>.
\<close>

theorem infer_intent_bucket_precedence:
  "(contains ''google_brand'' (lower text) \<longrightarrow> infer_intent_bucket text = ''Brand'') \<and>
   (\<not> contains ''google_brand'' (lower text) \<longrightarrow>
      infer_intent_bucket text = spec_intent_bucket text) \<and>
   (brand_rule (lower text) \<longrightarrow> infer_intent_bucket text = ''Brand'') \<and>
   (\<not> brand_rule (lower text) \<and>
    any_in [''group'', ''employer'', ''worksite'', ''abm-''] (lower text)
      \<longrightarrow> infer_intent_bucket text = ''Group'') \<and>
   (\<not> brand_rule (lower text) \<and>
    \<not> any_in [''group'', ''employer'', ''worksite'', ''abm-''] (lower text) \<and>
    any_in [''leadgen'', ''conversion'', ''quote'', ''quotes''] (lower text)
      \<longrightarrow> infer_intent_bucket text = ''Nonbrand Lead Gen'') \<and>
   (\<not> brand_rule (lower text) \<and>
    \<not> any_in [''group'', ''employer'', ''worksite'', ''abm-''] (lower text) \<and>
    \<not> any_in [''leadgen'', ''conversion'', ''quote'', ''quotes''] (lower text)
      \<longrightarrow> infer_intent_bucket text = ''Education/Midfunnel'') \<and>
   infer_intent_bucket ''google_brand_search'' = ''Brand'' \<and>
   infer_intent_bucket ''leadgen-quotes-nonbrand'' = ''Nonbrand Lead Gen''"
proof -
  have ends: "endswith (lower text) ''-branded'' \<Longrightarrow> contains ''-branded'' (lower text)"
    by (rule endswith_contains)
  have starts: "startswith (lower text) ''google_brand'' \<Longrightarrow> contains ''google_brand'' (lower text)"
    by (rule startswith_contains)
  have general:
    "infer_intent_bucket text =
       (if brand_rule (lower text) then ''Brand''
        else if any_in [''group'', ''employer'', ''worksite'', ''abm-''] (lower text) then ''Group''
        else if any_in [''leadgen'', ''conversion'', ''quote'', ''quotes''] (lower text)
          then ''Nonbrand Lead Gen''
        else ''Education/Midfunnel'')"
    using ends starts by (auto simp: infer_intent_bucket_def brand_rule_def Let_def)
  have google: "contains ''google_brand'' (lower text) \<longrightarrow> infer_intent_bucket text = ''Brand''"
    unfolding general by (simp add: brand_rule_def)
  have spec: "\<not> contains ''google_brand'' (lower text) \<longrightarrow>
      infer_intent_bucket text = spec_intent_bucket text"
    unfolding general
    by (auto simp: spec_intent_bucket_def brand_indicator_def brand_rule_def any_in_def Let_def)
  have rest:
    "(brand_rule (lower text) \<longrightarrow> infer_intent_bucket text = ''Brand'') \<and>
     (\<not> brand_rule (lower text) \<and>
      any_in [''group'', ''employer'', ''worksite'', ''abm-''] (lower text)
        \<longrightarrow> infer_intent_bucket text = ''Group'') \<and>
     (\<not> brand_rule (lower text) \<and>
      \<not> any_in [''group'', ''employer'', ''worksite'', ''abm-''] (lower text) \<and>
      any_in [''leadgen'', ''conversion'', ''quote'', ''quotes''] (lower text)
        \<longrightarrow> infer_intent_bucket text = ''Nonbrand Lead Gen'') \<and>
     (\<not> brand_rule (lower text) \<and>
      \<not> any_in [''group'', ''employer'', ''worksite'', ''abm-''] (lower text) \<and>
      \<not> any_in [''leadgen'', ''conversion'', ''quote'', ''quotes''] (lower text)
        \<longrightarrow> infer_intent_bucket text = ''Education/Midfunnel'')"
    unfolding general by simp
  have e1: "infer_intent_bucket ''google_brand_search'' = ''Brand''"
    by (simp add: infer_intent_bucket_def lower_def lower_char_def)
  have e2: "infer_intent_bucket ''leadgen-quotes-nonbrand'' = ''Nonbrand Lead Gen''"
    by (simp add: infer_intent_bucket_def lower_def lower_char_def startswith_def endswith_def
        has_nonbrand_def any_in_def)
  from google spec rest e1 e2 show ?thesis by blast
qed

theorem infer_intent_bucket_precedence_witness:
  "infer_intent_bucket ''Google_Brand_Core_Group'' = ''Brand'' \<and>
   infer_intent_bucket ''ABM-Worksite-LeadGen'' = ''Group'' \<and>
   infer_intent_bucket ''Dental-Brand-Exact'' = ''Brand'' \<and>
   infer_intent_bucket ''Dental-Non-Brand-Quotes'' = ''Nonbrand Lead Gen'' \<and>
   infer_intent_bucket ''Dental-Non-Brand-Quotes'' = spec_intent_bucket ''Dental-Non-Brand-Quotes'' \<and>
   infer_intent_bucket ''Always On Video'' = ''Education/Midfunnel''"
proof -
  have l1: "lower ''ABM-Worksite-LeadGen'' = ''abm-worksite-leadgen''"
    and l2: "lower ''Dental-Brand-Exact'' = ''dental-brand-exact''"
    and l3: "lower ''Dental-Non-Brand-Quotes'' = ''dental-non-brand-quotes''"
    and l4: "lower ''Always On Video'' = ''always on video''"
    and l5: "lower ''Google_Brand_Core_Group'' = ''google_brand_core_group''"
    by code_simp+
  have h5: "contains ''google_brand'' ''google_brand_core_group''"
    by simp
  have gb: "infer_intent_bucket ''Google_Brand_Core_Group'' = ''Brand''"
    using infer_intent_bucket_precedence [of "''Google_Brand_Core_Group''", unfolded l5] h5 by blast
  have h1: "\<not> brand_rule ''abm-worksite-leadgen'' \<and>
      any_in [''group'', ''employer'', ''worksite'', ''abm-''] ''abm-worksite-leadgen''"
    by (simp add: any_in_def has_nonbrand_def brand_rule_def)
  have g: "infer_intent_bucket ''ABM-Worksite-LeadGen'' = ''Group''"
    using infer_intent_bucket_precedence [of "''ABM-Worksite-LeadGen''", unfolded l1] h1 by blast
  have h2: "brand_rule ''dental-brand-exact''"
    by (simp add: any_in_def has_nonbrand_def brand_rule_def)
  have b: "infer_intent_bucket ''Dental-Brand-Exact'' = ''Brand''"
    using infer_intent_bucket_precedence [of "''Dental-Brand-Exact''", unfolded l2] h2 by blast
  have h3: "\<not> brand_rule ''dental-non-brand-quotes'' \<and>
      \<not> any_in [''group'', ''employer'', ''worksite'', ''abm-''] ''dental-non-brand-quotes'' \<and>
      any_in [''leadgen'', ''conversion'', ''quote'', ''quotes''] ''dental-non-brand-quotes'' \<and>
      \<not> contains ''google_brand'' ''dental-non-brand-quotes''"
    by (simp add: any_in_def has_nonbrand_def brand_rule_def)
  have n: "infer_intent_bucket ''Dental-Non-Brand-Quotes'' = ''Nonbrand Lead Gen''"
    using infer_intent_bucket_precedence [of "''Dental-Non-Brand-Quotes''", unfolded l3] h3 by blast
  have s: "infer_intent_bucket ''Dental-Non-Brand-Quotes'' = spec_intent_bucket ''Dental-Non-Brand-Quotes''"
    using infer_intent_bucket_precedence [of "''Dental-Non-Brand-Quotes''", unfolded l3] h3 by blast
  have h4: "\<not> brand_rule ''always on video'' \<and>
      \<not> any_in [''group'', ''employer'', ''worksite'', ''abm-''] ''always on video'' \<and>
      \<not> any_in [''leadgen'', ''conversion'', ''quote'', ''quotes''] ''always on video''"
    by (simp add: any_in_def has_nonbrand_def brand_rule_def)
  have m: "infer_intent_bucket ''Always On Video'' = ''Education/Midfunnel''"
    using infer_intent_bucket_precedence [of "''Always On Video''", unfolded l4] h4 by blast
  from gb g b n s m show ?thesis by blast
qed

text \<open>
  Against the specification's wording: a text with \<open>google_brand\<close>, a non-brand keyword
  and a group keyword is Brand for the code, where the negated indicator would leave
  it to the group keyword.
\<close>

theorem infer_intent_bucket_google_brand_counterexample:
  "has_nonbrand (lower ''google_brand_nonbrand_group'') \<and>
   infer_intent_bucket ''google_brand_nonbrand_group'' = ''Brand'' \<and>
   spec_intent_bucket ''google_brand_nonbrand_group'' = ''Group''"
  by code_simp


section \<open>Search terms\<close>

lemma st_base_total: "st_base r = Inr (base_of r)"
  by (simp add: st_base_def base_of_def row_spend_def row_cpa_def u_micros_def Let_def
      bind_exn_def u_div_total)

lemma st_cpas_base: "st_cpas (map base_of rows) = cpa_sample rows"
  by (induction rows) (simp_all add: st_cpas_def cpa_sample_def base_of_def)

lemma sort_eq_Nil: "sort (xs :: rat list) = [] \<longleftrightarrow> xs = []"
  by (metis length_0_conv length_sort)

lemma u_med_total: "u_med vals = Inr (median_of vals)"
  by (auto simp: u_med_def py_median_def median_of_def Let_def odd_iff_mod_2_eq_one sort_eq_Nil)

lemma st_second_pass_filter:
  "st_second_pass m (map base_of rows) =
     map (\<lambda>r. st_record m (base_of r)) (filter (\<lambda>r. st_search_term r \<noteq> []) rows)"
  by (induction rows) (simp_all add: base_of_def)

lemma u_xf_search_terms_total:
  "u_xf_search_terms rows =
     Inr (map (\<lambda>r. st_record (batch_median_cpa rows) (base_of r))
              (filter (\<lambda>r. st_search_term r \<noteq> []) rows))"
proof -
  have "map_exn st_base rows = Inr (map base_of rows)"
    by (rule map_exn_total) (rule st_base_total)
  then show ?thesis
    by (simp add: u_xf_search_terms_def bind_exn_def st_cpas_base u_med_total
        batch_median_cpa_def st_second_pass_filter)
qed

lemma st_record_figures: "rec_figures (st_record m (base_of r)) = row_figures r"
  by (simp add: rec_figures_def row_figures_def st_record_def base_of_def Let_def)

lemma st_record_label:
  "s_label (st_record m (base_of r)) =
     u_classify_search_term (row_spend r) (conversions (st_metrics r)) (row_cpa r) m"
  by (simp add: st_record_def base_of_def Let_def)

lemma st_record_label_figures:
  "s_label (st_record m (base_of r)) =
     u_classify_search_term (s_spend (st_record m (base_of r)))
       (s_conversions (st_record m (base_of r))) (s_cpa (st_record m (base_of r))) m"
  by (simp add: st_record_def base_of_def Let_def)

lemma classify_winner:
  "u_classify_search_term spend convs cpa m = ''winner'' \<longleftrightarrow>
     convs \<ge> 1 \<and> (m = 0 \<or> (cpa > 0 \<and> cpa \<le> m * (8 / 10)))"
  by (simp add: u_classify_search_term_def)

lemma classify_loser:
  "u_classify_search_term spend convs cpa m = ''loser'' \<longleftrightarrow>
     convs < 1 \<and> spend \<ge> 100 \<and> convs = 0"
  by (auto simp: u_classify_search_term_def)

lemma classify_neutral:
  "u_classify_search_term spend convs cpa m = ''neutral'' \<longleftrightarrow>
     \<not> (convs \<ge> 1 \<and> (m = 0 \<or> (cpa > 0 \<and> cpa \<le> m * (8 / 10)))) \<and>
     \<not> (convs < 1 \<and> spend \<ge> 100 \<and> convs = 0)"
  by (auto simp: u_classify_search_term_def)

text \<open>
  C3. The classifier labels spend, conversions and CPA against \<open>median_cpa\<close> as winner
  exactly when the conversions are at least 1 and \<open>median_cpa\<close> is 0 or the CPA is positive
  and at most \<open>median_cpa\<close> times 0.8; as loser exactly when the conversions are below 1,
  the spend at least 100 and the conversions 0; as neutral exactly otherwise. The
  search-terms transform computes \<open>median_cpa\<close> once, as the median of the CPAs of the rows
  of the batch that have conversions above 0 and a CPA above 0 (0 when there are none),
  then returns, for the rows with a non-empty search term in their order, one record
  each, carrying the row's search term, spend, conversions and CPA, and labelled by that
  rule on these figures and the batch median.
\<close>

theorem search_term_labels:
  "(u_classify_search_term spend convs cpa median_cpa = ''winner'' \<longleftrightarrow>
      convs \<ge> 1 \<and> (median_cpa = 0 \<or> (cpa > 0 \<and> cpa \<le> median_cpa * (8 / 10)))) \<and>
   (u_classify_search_term spend convs cpa median_cpa = ''loser'' \<longleftrightarrow>
      convs < 1 \<and> spend \<ge> 100 \<and> convs = 0) \<and>
   (u_classify_search_term spend convs cpa median_cpa = ''neutral'' \<longleftrightarrow>
      \<not> (convs \<ge> 1 \<and> (median_cpa = 0 \<or> (cpa > 0 \<and> cpa \<le> median_cpa * (8 / 10)))) \<and>
      \<not> (convs < 1 \<and> spend \<ge> 100 \<and> convs = 0)) \<and>
   batch_median_cpa rows =
     median_of (map row_cpa (filter (\<lambda>r. conversions (st_metrics r) > 0 \<and> row_cpa r > 0) rows)) \<and>
   (\<exists>out. u_xf_search_terms rows = Inr out \<and>
     map rec_figures out = map row_figures (filter (\<lambda>r. st_search_term r \<noteq> []) rows) \<and>
     (\<forall>x \<in> set out.
        (s_label x = ''winner'' \<longleftrightarrow>
           s_conversions x \<ge> 1 \<and>
           (batch_median_cpa rows = 0 \<or>
            (s_cpa x > 0 \<and> s_cpa x \<le> batch_median_cpa rows * (8 / 10)))) \<and>
        (s_label x = ''loser'' \<longleftrightarrow>
           s_conversions x < 1 \<and> s_spend x \<ge> 100 \<and> s_conversions x = 0) \<and>
        (s_label x = ''neutral'' \<longleftrightarrow>
           \<not> (s_conversions x \<ge> 1 \<and>
              (batch_median_cpa rows = 0 \<or>
               (s_cpa x > 0 \<and> s_cpa x \<le> batch_median_cpa rows * (8 / 10)))) \<and>
           \<not> (s_conversions x < 1 \<and> s_spend x \<ge> 100 \<and> s_conversions x = 0))))"
proof -
  let ?out = "map (\<lambda>r. st_record (batch_median_cpa rows) (base_of r))
                  (filter (\<lambda>r. st_search_term r \<noteq> []) rows)"
  have figures: "map rec_figures ?out = map row_figures (filter (\<lambda>r. st_search_term r \<noteq> []) rows)"
    by (simp add: st_record_figures o_def)
  have labels: "\<forall>x \<in> set ?out.
      s_label x = u_classify_search_term (s_spend x) (s_conversions x) (s_cpa x)
                    (batch_median_cpa rows)"
    using st_record_label_figures by auto
  have "\<forall>x \<in> set ?out.
        (s_label x = ''winner'' \<longleftrightarrow>
           s_conversions x \<ge> 1 \<and>
           (batch_median_cpa rows = 0 \<or>
            (s_cpa x > 0 \<and> s_cpa x \<le> batch_median_cpa rows * (8 / 10)))) \<and>
        (s_label x = ''loser'' \<longleftrightarrow>
           s_conversions x < 1 \<and> s_spend x \<ge> 100 \<and> s_conversions x = 0) \<and>
        (s_label x = ''neutral'' \<longleftrightarrow>
           \<not> (s_conversions x \<ge> 1 \<and>
              (batch_median_cpa rows = 0 \<or>
               (s_cpa x > 0 \<and> s_cpa x \<le> batch_median_cpa rows * (8 / 10)))) \<and>
           \<not> (s_conversions x < 1 \<and> s_spend x \<ge> 100 \<and> s_conversions x = 0))"
  proof
    fix x assume "x \<in> set ?out"
    with labels have "s_label x = u_classify_search_term (s_spend x) (s_conversions x) (s_cpa x)
                    (batch_median_cpa rows)" by blast
    then show "(s_label x = ''winner'' \<longleftrightarrow>
           s_conversions x \<ge> 1 \<and>
           (batch_median_cpa rows = 0 \<or>
            (s_cpa x > 0 \<and> s_cpa x \<le> batch_median_cpa rows * (8 / 10)))) \<and>
        (s_label x = ''loser'' \<longleftrightarrow>
           s_conversions x < 1 \<and> s_spend x \<ge> 100 \<and> s_conversions x = 0) \<and>
        (s_label x = ''neutral'' \<longleftrightarrow>
           \<not> (s_conversions x \<ge> 1 \<and>
              (batch_median_cpa rows = 0 \<or>
               (s_cpa x > 0 \<and> s_cpa x \<le> batch_median_cpa rows * (8 / 10)))) \<and>
           \<not> (s_conversions x < 1 \<and> s_spend x \<ge> 100 \<and> s_conversions x = 0))"
      using classify_winner classify_loser classify_neutral by presburger
  qed
  with figures u_xf_search_terms_total [of rows]
  have batch: "\<exists>out. u_xf_search_terms rows = Inr out \<and>
     map rec_figures out = map row_figures (filter (\<lambda>r. st_search_term r \<noteq> []) rows) \<and>
     (\<forall>x \<in> set out.
        (s_label x = ''winner'' \<longleftrightarrow>
           s_conversions x \<ge> 1 \<and>
           (batch_median_cpa rows = 0 \<or>
            (s_cpa x > 0 \<and> s_cpa x \<le> batch_median_cpa rows * (8 / 10)))) \<and>
        (s_label x = ''loser'' \<longleftrightarrow>
           s_conversions x < 1 \<and> s_spend x \<ge> 100 \<and> s_conversions x = 0) \<and>
        (s_label x = ''neutral'' \<longleftrightarrow>
           \<not> (s_conversions x \<ge> 1 \<and>
              (batch_median_cpa rows = 0 \<or>
               (s_cpa x > 0 \<and> s_cpa x \<le> batch_median_cpa rows * (8 / 10)))) \<and>
           \<not> (s_conversions x < 1 \<and> s_spend x \<ge> 100 \<and> s_conversions x = 0)))"
    by blast
  have median: "batch_median_cpa rows =
     median_of (map row_cpa (filter (\<lambda>r. conversions (st_metrics r) > 0 \<and> row_cpa r > 0) rows))"
    by (simp add: batch_median_cpa_def cpa_sample_def)
  from classify_winner [of spend convs cpa median_cpa] classify_loser [of spend convs cpa median_cpa]
    classify_neutral [of spend convs cpa median_cpa] median batch
  show ?thesis by (intro conjI)
qed

lemmas example_term_defs = example_term_row_def example_metrics_def row_cpa_def row_spend_def
  cpa_sample_def row_figures_def

lemma example_batch_sample: "cpa_sample example_batch = [25, 120]"
  by (simp add: example_batch_def example_term_defs)

lemma example_batch_median: "batch_median_cpa example_batch = 145 / 2"
  by (simp add: batch_median_cpa_def example_batch_sample median_of_def)

lemma example_batch_figures:
  "map row_figures (filter (\<lambda>r. st_search_term r \<noteq> []) example_batch) =
     [(''life quote'', 50, 2, 25), (''cheap insurance'', 150, 0, 0), (''whole life'', 120, 1, 120)]"
  by (simp add: example_batch_def example_term_defs)

lemma map_eq_three:
  assumes "map f xs = [u, v, w]"
  obtains a b c where "xs = [a, b, c]" "f a = u" "f b = v" "f c = w"
proof -
  from assms obtain a xs1 where 1: "xs = a # xs1" "f a = u" "map f xs1 = [v, w]"
    by (cases xs) auto
  from 1(3) obtain b xs2 where 2: "xs1 = b # xs2" "f b = v" "map f xs2 = [w]"
    by (cases xs1) auto
  from 2(3) obtain c where 3: "xs2 = [c]" "f c = w"
    by (cases xs2) auto
  from 1 2 3 that show thesis by blast
qed

theorem search_term_labels_witness:
  "\<exists>out. u_xf_search_terms example_batch = Inr out \<and>
         map s_label out = [''winner'', ''loser'', ''neutral'']"
proof -
  from search_term_labels [of 0 0 0 0 example_batch]
  obtain out where run: "u_xf_search_terms example_batch = Inr out"
    and fig: "map rec_figures out =
                map row_figures (filter (\<lambda>r. st_search_term r \<noteq> []) example_batch)"
    and lab: "\<forall>x \<in> set out.
        (s_label x = ''winner'' \<longleftrightarrow>
           s_conversions x \<ge> 1 \<and>
           (batch_median_cpa example_batch = 0 \<or>
            (s_cpa x > 0 \<and> s_cpa x \<le> batch_median_cpa example_batch * (8 / 10)))) \<and>
        (s_label x = ''loser'' \<longleftrightarrow>
           s_conversions x < 1 \<and> s_spend x \<ge> 100 \<and> s_conversions x = 0) \<and>
        (s_label x = ''neutral'' \<longleftrightarrow>
           \<not> (s_conversions x \<ge> 1 \<and>
              (batch_median_cpa example_batch = 0 \<or>
               (s_cpa x > 0 \<and> s_cpa x \<le> batch_median_cpa example_batch * (8 / 10)))) \<and>
           \<not> (s_conversions x < 1 \<and> s_spend x \<ge> 100 \<and> s_conversions x = 0))"
    by blast
  from fig [unfolded example_batch_figures] obtain a b c where out: "out = [a, b, c]"
    and fa: "rec_figures a = (''life quote'', 50, 2, 25)"
    and fb: "rec_figures b = (''cheap insurance'', 150, 0, 0)"
    and fc: "rec_figures c = (''whole life'', 120, 1, 120)"
    by (rule map_eq_three)
  have "s_label a = ''winner''"
    using lab [rule_format, of a] fa by (simp add: out rec_figures_def example_batch_median)
  moreover have "s_label b = ''loser''"
    using lab [rule_format, of b] fb by (simp add: out rec_figures_def example_batch_median)
  moreover have "s_label c = ''neutral''"
    using lab [rule_format, of c] fc by (simp add: out rec_figures_def example_batch_median)
  ultimately show ?thesis using run out by simp
qed


subsection \<open>Rows without a search term\<close>

lemma st_record_term: "s_search_term (st_record m (base_of r)) = st_search_term r"
  by (simp add: st_record_def base_of_def Let_def)

lemma example_alone_sample: "cpa_sample [example_kept_row] = [25]"
  by (simp add: example_kept_row_def example_term_defs)

lemma example_pair_sample: "cpa_sample [example_kept_row, example_skipped_row] = [25, 100]"
  by (simp add: example_kept_row_def example_skipped_row_def example_term_defs)

lemma example_kept_label:
  "s_label (st_record m (base_of example_kept_row)) = u_classify_search_term 50 2 25 m"
  by (simp add: st_record_label example_kept_row_def example_term_defs)

lemma example_terms:
  "st_search_term example_kept_row = ''life quote''" "st_search_term example_skipped_row = []"
  by (simp_all add: example_kept_row_def example_skipped_row_def example_term_row_def)

text \<open>
  C10. A row with an empty search term gets no record: the records are those of the
  rows with a non-empty term, in order, each with the figures of its row. Every record is labelled against the median of
  the CPA sample of the whole batch, and a row with an empty term, conversions above 0
  and a CPA above 0 has its CPA in that sample. So a skipped row can change a label: the
  row (life quote, spend 50, 2 conversions, CPA 25) is neutral alone (median 25) and a
  winner next to a row with an empty term, spend 100 and 1 conversion (median 62.5).
\<close>

theorem empty_term_rows_skipped_but_sampled:
  "(\<exists>out. u_xf_search_terms rows = Inr out \<and>
      map rec_figures out = map row_figures (filter (\<lambda>r. st_search_term r \<noteq> []) rows) \<and>
      (\<forall>x \<in> set out.
         s_label x = u_classify_search_term (s_spend x) (s_conversions x) (s_cpa x)
                       (median_of (cpa_sample rows)))) \<and>
   (\<forall>r \<in> set rows. st_search_term r = [] \<and> conversions (st_metrics r) > 0 \<and> row_cpa r > 0
      \<longrightarrow> row_cpa r \<in> set (cpa_sample rows)) \<and>
   map_sum id (map s_label) (u_xf_search_terms [example_kept_row]) = Inr [''neutral''] \<and>
   map_sum id (map s_label) (u_xf_search_terms [example_kept_row, example_skipped_row])
     = Inr [''winner'']"
proof -
  let ?out = "map (\<lambda>r. st_record (batch_median_cpa rows) (base_of r))
                  (filter (\<lambda>r. st_search_term r \<noteq> []) rows)"
  have terms: "map rec_figures ?out = map row_figures (filter (\<lambda>r. st_search_term r \<noteq> []) rows)"
    by (simp add: st_record_figures o_def)
  have labels: "\<forall>x \<in> set ?out.
      s_label x = u_classify_search_term (s_spend x) (s_conversions x) (s_cpa x)
                    (median_of (cpa_sample rows))"
    using st_record_label_figures by (auto simp: batch_median_cpa_def)
  have run: "\<exists>out. u_xf_search_terms rows = Inr out \<and>
      map rec_figures out = map row_figures (filter (\<lambda>r. st_search_term r \<noteq> []) rows) \<and>
      (\<forall>x \<in> set out.
         s_label x = u_classify_search_term (s_spend x) (s_conversions x) (s_cpa x)
                       (median_of (cpa_sample rows)))"
    using terms labels u_xf_search_terms_total [of rows] by blast
  have sampled: "\<forall>r \<in> set rows.
      st_search_term r = [] \<and> conversions (st_metrics r) > 0 \<and> row_cpa r > 0
      \<longrightarrow> row_cpa r \<in> set (cpa_sample rows)"
    by (auto simp: cpa_sample_def)
  have alone: "map_sum id (map s_label) (u_xf_search_terms [example_kept_row]) = Inr [''neutral'']"
    by (simp add: u_xf_search_terms_total example_terms example_kept_label batch_median_cpa_def
        example_alone_sample median_of_def u_classify_search_term_def)
  have pair: "map_sum id (map s_label) (u_xf_search_terms [example_kept_row, example_skipped_row])
      = Inr [''winner'']"
    by (simp add: u_xf_search_terms_total example_terms example_kept_label batch_median_cpa_def
        example_pair_sample median_of_def u_classify_search_term_def)
  from run sampled alone pair show ?thesis by blast
qed

theorem empty_term_rows_skipped_but_sampled_witness:
  "\<exists>out. u_xf_search_terms [example_skipped_row, example_kept_row] = Inr out \<and>
         map rec_figures out = [(''life quote'', 50, 2, 25)] \<and>
         map s_label out = [''winner''] \<and>
         row_cpa example_skipped_row = 100 \<and>
         row_cpa example_skipped_row \<in> set (cpa_sample [example_skipped_row, example_kept_row])"
proof -
  note inst = empty_term_rows_skipped_but_sampled [of "[example_skipped_row, example_kept_row]"]
  from inst obtain out where
    run: "u_xf_search_terms [example_skipped_row, example_kept_row] = Inr out" and
    figs: "map rec_figures out =
       map row_figures (filter (\<lambda>r. st_search_term r \<noteq> []) [example_skipped_row, example_kept_row])" and
    labels: "\<forall>x \<in> set out.
         s_label x = u_classify_search_term (s_spend x) (s_conversions x) (s_cpa x)
                       (median_of (cpa_sample [example_skipped_row, example_kept_row]))"
    by blast
  from figs have f: "map rec_figures out = [(''life quote'', 50, 2, 25)]"
    by (simp add: example_terms) (simp add: example_kept_row_def example_term_defs)
  then obtain x where x: "out = [x]" "rec_figures x = (''life quote'', 50, 2, 25)"
    by (cases out) auto
  have sample: "cpa_sample [example_skipped_row, example_kept_row] = [100, 25]"
    by (simp add: example_kept_row_def example_skipped_row_def example_term_defs)
  from labels x have "s_label x = u_classify_search_term 50 2 25 (median_of [100, 25])"
    by (simp add: rec_figures_def sample)
  then have l: "map s_label out = [''winner'']"
    by (simp add: x median_of_def u_classify_search_term_def)
  have c: "row_cpa example_skipped_row = 100"
    by (simp add: example_skipped_row_def example_term_defs)
  have hyp: "st_search_term example_skipped_row = [] \<and>
      conversions (st_metrics example_skipped_row) > 0 \<and> row_cpa example_skipped_row > 0"
    by (simp add: c example_terms) (simp add: example_skipped_row_def example_term_defs)
  from inst have "\<forall>r \<in> set [example_skipped_row, example_kept_row].
      st_search_term r = [] \<and> conversions (st_metrics r) > 0 \<and> row_cpa r > 0
      \<longrightarrow> row_cpa r \<in> set (cpa_sample [example_skipped_row, example_kept_row])"
    by blast
  with hyp have "row_cpa example_skipped_row \<in> set (cpa_sample [example_skipped_row, example_kept_row])"
    by simp
  with run f l c show ?thesis by simp
qed


section \<open>Deduplication\<close>

lemma dedupe_seen_snoc:
  "dedupe_seen key (rs @ [r]) = AList.update (key r) (length rs) (dedupe_seen key rs)"
  by (simp add: dedupe_seen_def enumerate_append_eq)

lemma dedupe_seen_distinct: "distinct (map fst (dedupe_seen key rs))"
proof (induction rs rule: rev_induct)
  case Nil
  show ?case by (simp add: dedupe_seen_def)
next
  case (snoc r rs)
  then show ?case by (simp add: dedupe_seen_snoc distinct_update)
qed

lemma set_update_distinct:
  "distinct (map fst al) \<Longrightarrow>
     set (AList.update k v al) = insert (k, v) {p \<in> set al. fst p \<noteq> k}"
  by (induction al) (auto simp: rev_image_eqI)

lemma is_last_snoc:
  "i < length rs \<Longrightarrow> is_last key (rs @ [r]) i \<longleftrightarrow> is_last key rs i \<and> key (rs ! i) \<noteq> key r"
  by (auto simp: is_last_def nth_append less_Suc_eq Ball_def)

lemma is_last_snoc_new: "is_last key (rs @ [r]) (length rs)"
  by (simp add: is_last_def)

lemma set_dedupe_seen:
  "set (dedupe_seen key rs) = {(key (rs ! i), i) | i. i < length rs \<and> is_last key rs i}"
proof (induction rs rule: rev_induct)
  case Nil
  show ?case by (simp add: dedupe_seen_def)
next
  case (snoc r rs)
  have "set (dedupe_seen key (rs @ [r])) =
      insert (key r, length rs) {p \<in> set (dedupe_seen key rs). fst p \<noteq> key r}"
    by (simp add: dedupe_seen_snoc set_update_distinct dedupe_seen_distinct)
  also have "\<dots> = insert (key r, length rs)
      {(key (rs ! i), i) | i. i < length rs \<and> is_last key rs i \<and> key (rs ! i) \<noteq> key r}"
    unfolding snoc.IH by auto
  also have "\<dots> = {(key ((rs @ [r]) ! i), i) | i. i < length (rs @ [r]) \<and> is_last key (rs @ [r]) i}"
    (is "?L = ?R")
  proof (rule set_eqI, rule iffI)
    fix p assume "p \<in> ?L"
    then show "p \<in> ?R"
      using is_last_snoc [of _ rs key r] is_last_snoc_new [of key rs r]
      by (auto simp: nth_append)
  next
    fix p assume "p \<in> ?R"
    then obtain i where i: "p = (key ((rs @ [r]) ! i), i)" "i < length (rs @ [r])"
      "is_last key (rs @ [r]) i" by blast
    show "p \<in> ?L"
    proof (cases "i = length rs")
      case True
      with i show ?thesis by simp
    next
      case False
      with i have "i < length rs" by simp
      with i is_last_snoc [of i rs key r] show ?thesis by (auto simp: nth_append)
    qed
  qed
  finally show ?case .
qed

lemma dedupe_values:
  "sort (map snd (dedupe_seen key rs)) = filter (is_last key rs) [0 ..< length rs]"
proof (rule sorted_distinct_set_unique)
  show "sorted (sort (map snd (dedupe_seen key rs)))" by simp
  show "sorted (filter (is_last key rs) [0 ..< length rs])" by (simp add: sorted_filter [where f = id, simplified])
  show "distinct (filter (is_last key rs) [0 ..< length rs])" by simp
  have "inj_on snd (set (dedupe_seen key rs))"
    unfolding set_dedupe_seen by (auto simp: inj_on_def)
  moreover have "distinct (dedupe_seen key rs)"
    using dedupe_seen_distinct [of key rs] by (simp add: distinct_map)
  ultimately show "distinct (sort (map snd (dedupe_seen key rs)))"
    by (simp add: distinct_map)
  show "set (sort (map snd (dedupe_seen key rs))) = set (filter (is_last key rs) [0 ..< length rs])"
    by (auto simp: set_dedupe_seen image_iff)
qed

lemma u_dedupe_filter:
  "u_dedupe key rs = map (\<lambda>i. rs ! i) (filter (is_last key rs) [0 ..< length rs])"
  by (simp add: u_dedupe_def dedupe_values)


lemma dedupe_keys_seen: "fst ` set (dedupe_seen key rs) = key ` set rs"
proof (induction rs rule: rev_induct)
  case Nil
  show ?case by (simp add: dedupe_seen_def)
next
  case (snoc r rs)
  then show ?case by (simp add: dedupe_seen_snoc dom_update)
qed

lemma set_u_dedupe:
  "set (u_dedupe key rs) = {rs ! i | i. i < length rs \<and> is_last key rs i}"
  by (auto simp: u_dedupe_filter)

lemma u_dedupe_keys: "key ` set (u_dedupe key rs) = key ` set rs"
proof -
  have "key ` set (u_dedupe key rs) = {key (rs ! i) | i. i < length rs \<and> is_last key rs i}"
    unfolding set_u_dedupe by blast
  moreover have "fst ` set (dedupe_seen key rs) = {key (rs ! i) | i. i < length rs \<and> is_last key rs i}"
    unfolding set_dedupe_seen by force
  ultimately show ?thesis by (simp add: dedupe_keys_seen)
qed

lemma u_dedupe_distinct: "distinct (map key (u_dedupe key rs))"
proof -
  have "inj_on (\<lambda>i. key (rs ! i)) (set (filter (is_last key rs) [0 ..< length rs]))"
  proof (rule inj_onI)
    fix i j
    assume i: "i \<in> set (filter (is_last key rs) [0 ..< length rs])"
      and j: "j \<in> set (filter (is_last key rs) [0 ..< length rs])"
      and eq: "key (rs ! i) = key (rs ! j)"
    show "i = j"
    proof (rule ccontr)
      assume "i \<noteq> j"
      then consider "i < j" | "j < i" by linarith
      then show False
      proof cases
        case 1
        with i j eq show False by (auto simp: is_last_def)
      next
        case 2
        with i j eq show False by (auto simp: is_last_def)
      qed
    qed
  qed
  then show ?thesis by (simp add: u_dedupe_filter distinct_map o_def)
qed

lemma last_with_key:
  assumes "i < length rs" "is_last key rs i"
  shows "last (filter (\<lambda>r. key r = key (rs ! i)) rs) = rs ! i"
proof -
  have split: "rs = take i rs @ rs ! i # drop (Suc i) rs"
    using assms(1) by (rule id_take_nth_drop)
  have "\<forall>r \<in> set (drop (Suc i) rs). key r \<noteq> key (rs ! i)"
  proof
    fix r assume "r \<in> set (drop (Suc i) rs)"
    then obtain k where k: "k < length (drop (Suc i) rs)" "r = drop (Suc i) rs ! k"
      by (auto simp: in_set_conv_nth)
    then have "r = rs ! (Suc i + k)" "Suc i + k < length rs" by auto
    with assms(2) show "key r \<noteq> key (rs ! i)" by (auto simp: is_last_def)
  qed
  then have "filter (\<lambda>r. key r = key (rs ! i)) (drop (Suc i) rs) = []"
    by (simp add: filter_empty_conv)
  then have "filter (\<lambda>r. key r = key (rs ! i)) rs =
      filter (\<lambda>r. key r = key (rs ! i)) (take i rs) @ [rs ! i]"
    by (subst split) simp
  then show ?thesis by simp
qed

lemma u_dedupe_distinct_keys:
  assumes "distinct (map key rs)"
  shows "u_dedupe key rs = rs"
proof -
  have "\<forall>i \<in> set [0 ..< length rs]. is_last key rs i"
    using assms by (auto simp: is_last_def distinct_conv_nth)
  then have "filter (is_last key rs) [0 ..< length rs] = [0 ..< length rs]"
    by (simp add: filter_id_conv)
  then show ?thesis by (simp add: u_dedupe_filter map_nth)
qed

text \<open>
  C5. The deduplication returns the records at the indices that hold the last record of
  their key, in index order. So the keys of the output are distinct and are exactly the
  keys of the input; each record of the output is the last record of the input with its
  key; and a list whose keys are distinct is returned as it is.
\<close>

theorem dedupe_keeps_last:
  "u_dedupe key records =
     map (\<lambda>i. records ! i) (filter (is_last key records) [0 ..< length records]) \<and>
   distinct (map key (u_dedupe key records)) \<and>
   key ` set (u_dedupe key records) = key ` set records \<and>
   (\<forall>x \<in> set (u_dedupe key records). x = last (filter (\<lambda>r. key r = key x) records)) \<and>
   (distinct (map key records) \<longrightarrow> u_dedupe key records = records)"
proof -
  have "\<forall>x \<in> set (u_dedupe key records). x = last (filter (\<lambda>r. key r = key x) records)"
  proof
    fix x assume "x \<in> set (u_dedupe key records)"
    then obtain i where "x = records ! i" "i < length records" "is_last key records i"
      unfolding set_u_dedupe by blast
    then show "x = last (filter (\<lambda>r. key r = key x) records)"
      by (simp add: last_with_key)
  qed
  moreover note u_dedupe_filter [of key records] u_dedupe_distinct [of key records]
    u_dedupe_keys [of key records]
  moreover have "distinct (map key records) \<longrightarrow> u_dedupe key records = records"
    by (simp add: u_dedupe_distinct_keys)
  ultimately show ?thesis by (intro conjI)
qed

theorem dedupe_keeps_last_witness:
  "u_dedupe example_key example_records =
     [(''b'', ''2026-02-17'', 2), (''a'', ''2026-02-17'', 3), (''a'', ''2026-02-18'', 4)] \<and>
   (''a'', ''2026-02-17'', 3) =
     last (filter (\<lambda>r. example_key r = (''a'', ''2026-02-17'')) example_records) \<and>
   distinct (map example_key example_distinct_records) \<and>
   u_dedupe example_key example_distinct_records = example_distinct_records"
proof -
  have ev: "u_dedupe example_key example_records =
     [(''b'', ''2026-02-17'', 2), (''a'', ''2026-02-17'', 3), (''a'', ''2026-02-18'', 4)]"
    by code_simp
  from dedupe_keeps_last [of example_key example_records]
  have "\<forall>x \<in> set (u_dedupe example_key example_records).
          x = last (filter (\<lambda>r. example_key r = example_key x) example_records)"
    by blast
  then have kept: "(''a'', ''2026-02-17'', 3) =
     last (filter (\<lambda>r. example_key r = (''a'', ''2026-02-17'')) example_records)"
    unfolding ev by (simp add: example_key_def)
  have d: "distinct (map example_key example_distinct_records)"
    by (simp add: example_key_def example_distinct_records_def)
  from dedupe_keeps_last [of example_key example_distinct_records]
  have "distinct (map example_key example_distinct_records) \<longrightarrow>
      u_dedupe example_key example_distinct_records = example_distinct_records"
    by blast
  with d have "u_dedupe example_key example_distinct_records = example_distinct_records"
    by simp
  with ev kept d show ?thesis by simp
qed


section \<open>Geo lookups and enrichment\<close>

lemma range_slices_concat:
  "0 < n \<Longrightarrow> concat (range_slices n i xs) = drop i xs"
proof (induction n i xs rule: range_slices.induct)
  case (1 sz i xs)
  show ?case
  proof (cases "i < length xs")
    case True
    with 1 have "concat (range_slices sz (i + sz) xs) = drop (i + sz) xs" by simp
    moreover have "take sz (drop i xs) @ drop sz (drop i xs) = drop i xs"
      by (rule append_take_drop_id)
    ultimately show ?thesis using True 1(2)
      by (subst range_slices.simps) (simp add: add.commute)
  next
    case False
    then show ?thesis by (subst range_slices.simps) simp
  qed
qed

lemma range_slices_bounds:
  "\<forall>c \<in> set (range_slices n i xs). c \<noteq> [] \<and> length c \<le> n"
proof (induction n i xs rule: range_slices.induct)
  case (1 sz i xs)
  show ?case
  proof (cases "0 < sz \<and> i < length xs")
    case True
    with 1 have "\<forall>c \<in> set (range_slices sz (i + sz) xs). c \<noteq> [] \<and> length c \<le> sz" by simp
    with True show ?thesis by (subst range_slices.simps) auto
  next
    case False
    then have "range_slices sz i xs = []" by (subst range_slices.simps) auto
    then show ?thesis by simp
  qed
qed

lemma range_slices_450:
  assumes "length xs = 450"
  shows "range_slices 200 0 xs = [take 200 xs, take 200 (drop 200 xs), drop 400 xs]"
proof -
  have "range_slices 200 600 xs = []" using assms by (subst range_slices.simps) simp
  then have "range_slices 200 400 xs = [drop 400 xs]"
    using assms by (subst range_slices.simps) simp
  then have "range_slices 200 200 xs = [take 200 (drop 200 xs), drop 400 xs]"
    using assms by (subst range_slices.simps) simp
  then show ?thesis using assms by (subst range_slices.simps) simp
qed

lemma geo_resolve_info: "geo_resolve m geo = m(str_int (gt_id geo) \<mapsto> info_of geo)"
  by (simp add: geo_resolve_def info_of_def)

lemma foldl_geo_resolve:
  "foldl geo_resolve m0 rows cid =
     (if \<exists>r \<in> set rows. str_int (gt_id r) = cid
      then Some (info_of (last (filter (\<lambda>r. str_int (gt_id r) = cid) rows)))
      else m0 cid)"
  by (induction rows arbitrary: cid rule: rev_induct) (auto simp: geo_resolve_info)

lemma geo_lookup_step:
  "geo_lookup_chunks ga (c # rest) m0 =
     (case u_run_gaql ga (chunk_query c) of
        Inl e \<Rightarrow> ([chunk_query c], Inl e)
      | Inr rows \<Rightarrow>
          (chunk_query c # fst (geo_lookup_chunks ga rest (foldl geo_resolve m0 rows)),
           snd (geo_lookup_chunks ga rest (foldl geo_resolve m0 rows))))"
  by (simp add: chunk_query_def Let_def split: sum.splits prod.splits)

declare geo_lookup_chunks.simps(2) [simp del]

lemma geo_lookup_prefix:
  "prefix (fst (geo_lookup_chunks ga chunks m0)) (map chunk_query chunks)"
proof (induction chunks arbitrary: m0)
  case Nil
  show ?case by simp
next
  case (Cons c rest)
  show ?case
  proof (cases "u_run_gaql ga (chunk_query c)")
    case (Inl e)
    then show ?thesis by (simp add: geo_lookup_step)
  next
    case (Inr rows)
    with Cons [of "foldl geo_resolve m0 rows"] show ?thesis by (simp add: geo_lookup_step)
  qed
qed

lemma geo_lookup_returns:
  "snd (geo_lookup_chunks ga chunks m0) = Inr m \<Longrightarrow>
     fst (geo_lookup_chunks ga chunks m0) = map chunk_query chunks \<and>
     m = foldl geo_resolve m0 (lookup_rows ga chunks)"
proof (induction chunks arbitrary: m0)
  case Nil
  then show ?case by (simp add: lookup_rows_def)
next
  case (Cons c rest)
  show ?case
  proof (cases "u_run_gaql ga (chunk_query c)")
    case (Inl e)
    with Cons.prems show ?thesis by (simp add: geo_lookup_step)
  next
    case (Inr rows)
    with Cons.prems have "snd (geo_lookup_chunks ga rest (foldl geo_resolve m0 rows)) = Inr m"
      by (simp add: geo_lookup_step)
    from Cons.IH [OF this] Inr show ?thesis
      by (simp add: geo_lookup_step lookup_rows_def)
  qed
qed

lemma geo_lookup_total:
  "\<forall>c \<in> set chunks. \<exists>rows. u_run_gaql ga (chunk_query c) = Inr rows \<Longrightarrow>
     \<exists>m. snd (geo_lookup_chunks ga chunks m0) = Inr m"
proof (induction chunks arbitrary: m0)
  case Nil
  show ?case by simp
next
  case (Cons c rest)
  then obtain rows where rows: "u_run_gaql ga (chunk_query c) = Inr rows" by auto
  from Cons have "\<exists>m. snd (geo_lookup_chunks ga rest (foldl geo_resolve m0 rows)) = Inr m"
    by simp
  with rows show ?case by (simp add: geo_lookup_step)
qed

lemma geo_criterion_ids_props:
  "distinct (geo_criterion_ids records) \<and> sorted (geo_criterion_ids records) \<and>
   set (geo_criterion_ids records) =
     {strip (g_state_code r) | r. r \<in> set records \<and> isdigit (strip (g_state_code r))}"
  by (auto simp: geo_criterion_ids_def)

lemma u_geo_target_details_chunks:
  "u_geo_target_details ga ids = geo_lookup_chunks ga (range_slices 200 0 ids) Map.empty"
proof (cases "ids = []")
  case True
  then have "range_slices 200 0 ids = []" by (subst range_slices.simps) simp
  with True show ?thesis by (simp add: u_geo_target_details_def)
next
  case False
  then show ?thesis by (simp add: u_geo_target_details_def)
qed

lemma u_enrich_queries:
  "fst (u_enrich_geo_records ga records) = fst (u_geo_target_details ga (geo_criterion_ids records))"
  by (simp add: u_enrich_geo_records_def Let_def split: prod.splits)

lemma u_enrich_result:
  "snd (u_enrich_geo_records ga records) =
     (case snd (u_geo_target_details ga (geo_criterion_ids records)) of
        Inl e \<Rightarrow> Inl e
      | Inr details \<Rightarrow> Inr (map (enrich_rec details) records))"
  by (simp add: u_enrich_geo_records_def Let_def bind_exn_def split: prod.splits sum.splits)

text \<open>
  C7. The identifiers the enricher looks up are the distinct stripped \<open>state_code\<close>
  values that are all digits, sorted, and its queries are those of the lookup on them.
  For any list of identifiers, the chunks partition the list and hold between 1 and 200
  identifiers each; the queries issued are the queries of the chunks, in order, up to the
  first lookup that raises; when every lookup returns, so does the resolution, and then
  one query per chunk was issued (for 450 identifiers three, on the first 200, the next
  200 and the last 50) and every row a lookup returned has its identifier in the mapping,
  with the details of the last row returned for that identifier.
\<close>

theorem geo_lookup_chunking:
  "distinct (geo_criterion_ids records) \<and> sorted (geo_criterion_ids records) \<and>
   set (geo_criterion_ids records) =
     {strip (g_state_code r) | r. r \<in> set records \<and> isdigit (strip (g_state_code r))} \<and>
   fst (u_enrich_geo_records ga records) =
     fst (u_geo_target_details ga (geo_criterion_ids records)) \<and>
   concat (range_slices 200 0 criterion_ids) = criterion_ids \<and>
   (\<forall>c \<in> set (range_slices 200 0 criterion_ids). c \<noteq> [] \<and> length c \<le> 200) \<and>
   prefix (fst (u_geo_target_details ga criterion_ids))
          (map chunk_query (range_slices 200 0 criterion_ids)) \<and>
   ((\<forall>c \<in> set (range_slices 200 0 criterion_ids). \<exists>rows. u_run_gaql ga (chunk_query c) = Inr rows)
      \<longrightarrow> (\<exists>m. snd (u_geo_target_details ga criterion_ids) = Inr m)) \<and>
   (\<forall>m. snd (u_geo_target_details ga criterion_ids) = Inr m \<longrightarrow>
      fst (u_geo_target_details ga criterion_ids)
        = map chunk_query (range_slices 200 0 criterion_ids) \<and>
      (length criterion_ids = 450 \<longrightarrow>
         map length (range_slices 200 0 criterion_ids) = [200, 200, 50] \<and>
         fst (u_geo_target_details ga criterion_ids) =
           [chunk_query (take 200 criterion_ids),
            chunk_query (take 200 (drop 200 criterion_ids)),
            chunk_query (drop 400 criterion_ids)]) \<and>
      (\<forall>row \<in> set (lookup_rows ga (range_slices 200 0 criterion_ids)).
         m (str_int (gt_id row)) =
           Some (info_of (last (filter (\<lambda>r. str_int (gt_id r) = str_int (gt_id row))
                                  (lookup_rows ga (range_slices 200 0 criterion_ids)))))))"
proof -
  let ?chunks = "range_slices 200 0 criterion_ids"
  have ids: "distinct (geo_criterion_ids records) \<and> sorted (geo_criterion_ids records) \<and>
     set (geo_criterion_ids records) =
       {strip (g_state_code r) | r. r \<in> set records \<and> isdigit (strip (g_state_code r))}"
    by (rule geo_criterion_ids_props)
  have part: "concat ?chunks = criterion_ids"
    by (simp add: range_slices_concat)
  have bounds: "\<forall>c \<in> set ?chunks. c \<noteq> [] \<and> length c \<le> 200"
    by (rule range_slices_bounds)
  have pre: "prefix (fst (u_geo_target_details ga criterion_ids)) (map chunk_query ?chunks)"
    by (simp add: u_geo_target_details_chunks geo_lookup_prefix)
  have total: "(\<forall>c \<in> set ?chunks. \<exists>rows. u_run_gaql ga (chunk_query c) = Inr rows)
      \<longrightarrow> (\<exists>m. snd (u_geo_target_details ga criterion_ids) = Inr m)"
    by (simp add: u_geo_target_details_chunks geo_lookup_total)
  have returned: "\<forall>m. snd (u_geo_target_details ga criterion_ids) = Inr m \<longrightarrow>
      fst (u_geo_target_details ga criterion_ids) = map chunk_query ?chunks \<and>
      (length criterion_ids = 450 \<longrightarrow>
         map length ?chunks = [200, 200, 50] \<and>
         fst (u_geo_target_details ga criterion_ids) =
           [chunk_query (take 200 criterion_ids),
            chunk_query (take 200 (drop 200 criterion_ids)),
            chunk_query (drop 400 criterion_ids)]) \<and>
      (\<forall>row \<in> set (lookup_rows ga ?chunks).
         m (str_int (gt_id row)) =
           Some (info_of (last (filter (\<lambda>r. str_int (gt_id r) = str_int (gt_id row))
                                  (lookup_rows ga ?chunks)))))"
  proof (intro allI impI)
    fix m assume "snd (u_geo_target_details ga criterion_ids) = Inr m"
    then have ret: "snd (geo_lookup_chunks ga ?chunks Map.empty) = Inr m"
      by (simp add: u_geo_target_details_chunks)
    from geo_lookup_returns [OF ret]
    have q: "fst (u_geo_target_details ga criterion_ids) = map chunk_query ?chunks"
      and m: "m = foldl geo_resolve Map.empty (lookup_rows ga ?chunks)"
      by (simp_all add: u_geo_target_details_chunks)
    have big: "length criterion_ids = 450 \<longrightarrow>
         map length ?chunks = [200, 200, 50] \<and>
         fst (u_geo_target_details ga criterion_ids) =
           [chunk_query (take 200 criterion_ids),
            chunk_query (take 200 (drop 200 criterion_ids)),
            chunk_query (drop 400 criterion_ids)]"
      unfolding q by (simp add: range_slices_450)
    have rows: "\<forall>row \<in> set (lookup_rows ga ?chunks).
         m (str_int (gt_id row)) =
           Some (info_of (last (filter (\<lambda>r. str_int (gt_id r) = str_int (gt_id row))
                                  (lookup_rows ga ?chunks))))"
      unfolding m foldl_geo_resolve by auto
    from q big rows
    show "fst (u_geo_target_details ga criterion_ids) = map chunk_query ?chunks \<and>
      (length criterion_ids = 450 \<longrightarrow>
         map length ?chunks = [200, 200, 50] \<and>
         fst (u_geo_target_details ga criterion_ids) =
           [chunk_query (take 200 criterion_ids),
            chunk_query (take 200 (drop 200 criterion_ids)),
            chunk_query (drop 400 criterion_ids)]) \<and>
      (\<forall>row \<in> set (lookup_rows ga ?chunks).
         m (str_int (gt_id row)) =
           Some (info_of (last (filter (\<lambda>r. str_int (gt_id r) = str_int (gt_id row))
                                  (lookup_rows ga ?chunks)))))"
      by (intro conjI)
  qed
  from ids u_enrich_queries [of ga records] part bounds pre total returned
  show ?thesis by blast
qed

lemma example_api_returns: "u_run_gaql example_geo_api q = Inr example_geo_rows"
  by (simp add: u_run_gaql_def example_geo_api_def bind_exn_def)

lemma example_ids:
  "map (\<lambda>r. str_int (gt_id r)) example_geo_rows = [''21137'', ''21136'', ''20121'']"
  by (simp add: example_geo_rows_def str_int_def str_nat.simps digit_chr_def)

lemma example_many_ids_length: "length example_many_ids = 450"
  by (simp add: example_many_ids_def)

theorem geo_lookup_chunking_witness:
  "length example_many_ids = 450 \<and>
   map length (range_slices 200 0 example_many_ids) = [200, 200, 50] \<and>
   length (fst (u_geo_target_details example_geo_api example_many_ids)) = 3 \<and>
   (\<exists>m. snd (u_geo_target_details example_geo_api example_many_ids) = Inr m \<and>
        m ''21137'' = Some (info_of (example_geo_rows ! 0)))"
proof -
  let ?chunks = "range_slices 200 0 example_many_ids"
  note inst = geo_lookup_chunking [of "[]" example_geo_api example_many_ids]
  have "\<forall>c \<in> set ?chunks. \<exists>rows. u_run_gaql example_geo_api (chunk_query c) = Inr rows"
    by (simp add: example_api_returns)
  with inst obtain m where m: "snd (u_geo_target_details example_geo_api example_many_ids) = Inr m"
    by blast
  with inst have big: "length example_many_ids = 450 \<longrightarrow>
         map length ?chunks = [200, 200, 50] \<and>
         fst (u_geo_target_details example_geo_api example_many_ids) =
           [chunk_query (take 200 example_many_ids),
            chunk_query (take 200 (drop 200 example_many_ids)),
            chunk_query (drop 400 example_many_ids)]"
    by blast
  with example_many_ids_length have lens: "map length ?chunks = [200, 200, 50]"
    and three: "length (fst (u_geo_target_details example_geo_api example_many_ids)) = 3"
    by simp_all
  from lens obtain a b c where chunks: "?chunks = [a, b, c]"
    by (rule map_eq_three)
  have rows: "lookup_rows example_geo_api ?chunks = example_geo_rows @ example_geo_rows @ example_geo_rows"
    unfolding chunks by (simp add: lookup_rows_def example_api_returns)
  from inst m have "\<forall>row \<in> set (lookup_rows example_geo_api ?chunks).
         m (str_int (gt_id row)) =
           Some (info_of (last (filter (\<lambda>r. str_int (gt_id r) = str_int (gt_id row))
                                  (lookup_rows example_geo_api ?chunks))))"
    by blast
  then have "m (str_int (gt_id (example_geo_rows ! 0))) =
           Some (info_of (last (filter (\<lambda>r. str_int (gt_id r) = str_int (gt_id (example_geo_rows ! 0)))
                                  (example_geo_rows @ example_geo_rows @ example_geo_rows))))"
    unfolding rows by (simp add: example_geo_rows_def)
  then have "m ''21137'' = Some (info_of (example_geo_rows ! 0))"
    using example_ids by (simp add: example_geo_rows_def)
  with m lens three example_many_ids_length show ?thesis by blast
qed

lemma enrich_rec_unresolved:
  "details (strip (g_state_code rec)) = None \<Longrightarrow> enrich_rec details rec = rec"
  by (simp add: enrich_rec_def Let_def)

lemma enrich_rec_resolved:
  assumes "details (strip (g_state_code rec)) = Some info"
  shows "g_dma (enrich_rec details rec) = gi_target_type info"
    and "gi_country_code info = ''US'' \<and> gi_target_type info \<in> {''State'', ''Province''} \<Longrightarrow>
           g_state (enrich_rec details rec) = gi_name info \<and>
           g_state_code (enrich_rec details rec) =
             (case US_STATE_CODE_BY_NAME (gi_name info) of
                Some code \<Rightarrow> code | None \<Rightarrow> strip (g_state_code rec))"
    and "\<not> (gi_country_code info = ''US'' \<and> gi_target_type info \<in> {''State'', ''Province''}) \<Longrightarrow>
           g_state (enrich_rec details rec) =
             (if gi_canonical_name info \<noteq> [] then gi_canonical_name info else gi_name info) \<and>
           g_state_code (enrich_rec details rec) = strip (g_state_code rec)"
    and "(enrich_rec details rec)\<lparr> g_state := g_state rec, g_state_code := g_state_code rec,
                                    g_dma := g_dma rec \<rparr> = rec"
  using assms by (auto simp: enrich_rec_def Let_def dict_get_def)

text \<open>
  C6, as the code has it. An exception of a lookup is the outcome of the enricher. When
  the lookups return the mapping \<open>details\<close>, the enricher returns one record per input
  record, in order, and with \<open>raw\<close> the record's \<open>state_code\<close> stripped of surrounding
  whitespace: a record whose \<open>raw\<close> is not in the mapping is returned unchanged; for a
  record whose \<open>raw\<close> resolved, \<open>dma\<close> becomes the target type; when the country code is
  US and the target type State or Province, \<open>state\<close> becomes the name and \<open>state_code\<close>
  the abbreviation the static table has for the name, or \<open>raw\<close> when the table has none;
  otherwise \<open>state\<close> becomes the canonical name, or the name when the canonical name is
  empty, and \<open>state_code\<close> becomes \<open>raw\<close>; no other field changes.
\<close>

theorem geo_enrichment_fields:
  "(\<forall>e. snd (u_geo_target_details ga (geo_criterion_ids records)) = Inl e \<longrightarrow>
        snd (u_enrich_geo_records ga records) = Inl e) \<and>
   (\<forall>details. snd (u_geo_target_details ga (geo_criterion_ids records)) = Inr details \<longrightarrow>
      (\<exists>out. snd (u_enrich_geo_records ga records) = Inr out \<and> length out = length records \<and>
         (\<forall>i < length records.
            (details (strip (g_state_code (records ! i))) = None \<longrightarrow> out ! i = records ! i) \<and>
            (\<forall>info. details (strip (g_state_code (records ! i))) = Some info \<longrightarrow>
               g_dma (out ! i) = gi_target_type info \<and>
               (gi_country_code info = ''US'' \<and> gi_target_type info \<in> {''State'', ''Province''} \<longrightarrow>
                  g_state (out ! i) = gi_name info \<and>
                  g_state_code (out ! i) =
                    (case US_STATE_CODE_BY_NAME (gi_name info) of
                       Some code \<Rightarrow> code
                     | None \<Rightarrow> strip (g_state_code (records ! i)))) \<and>
               (\<not> (gi_country_code info = ''US'' \<and> gi_target_type info \<in> {''State'', ''Province''}) \<longrightarrow>
                  g_state (out ! i) =
                    (if gi_canonical_name info \<noteq> [] then gi_canonical_name info
                     else gi_name info) \<and>
                  g_state_code (out ! i) = strip (g_state_code (records ! i))) \<and>
               (out ! i)\<lparr> g_state := g_state (records ! i),
                           g_state_code := g_state_code (records ! i),
                           g_dma := g_dma (records ! i) \<rparr> = records ! i))))"
proof (intro conjI allI impI)
  fix e assume "snd (u_geo_target_details ga (geo_criterion_ids records)) = Inl e"
  then show "snd (u_enrich_geo_records ga records) = Inl e"
    by (simp add: u_enrich_result)
next
  fix details
  assume d: "snd (u_geo_target_details ga (geo_criterion_ids records)) = Inr details"
  let ?out = "map (enrich_rec details) records"
  have run: "snd (u_enrich_geo_records ga records) = Inr ?out"
    using d by (simp add: u_enrich_result)
  have each: "\<forall>i < length records.
            (details (strip (g_state_code (records ! i))) = None \<longrightarrow> ?out ! i = records ! i) \<and>
            (\<forall>info. details (strip (g_state_code (records ! i))) = Some info \<longrightarrow>
               g_dma (?out ! i) = gi_target_type info \<and>
               (gi_country_code info = ''US'' \<and> gi_target_type info \<in> {''State'', ''Province''} \<longrightarrow>
                  g_state (?out ! i) = gi_name info \<and>
                  g_state_code (?out ! i) =
                    (case US_STATE_CODE_BY_NAME (gi_name info) of
                       Some code \<Rightarrow> code
                     | None \<Rightarrow> strip (g_state_code (records ! i)))) \<and>
               (\<not> (gi_country_code info = ''US'' \<and> gi_target_type info \<in> {''State'', ''Province''}) \<longrightarrow>
                  g_state (?out ! i) =
                    (if gi_canonical_name info \<noteq> [] then gi_canonical_name info
                     else gi_name info) \<and>
                  g_state_code (?out ! i) = strip (g_state_code (records ! i))) \<and>
               (?out ! i)\<lparr> g_state := g_state (records ! i),
                           g_state_code := g_state_code (records ! i),
                           g_dma := g_dma (records ! i) \<rparr> = records ! i)"
  proof (intro allI impI conjI)
    fix i assume "i < length records"
       and "details (strip (g_state_code (records ! i))) = None"
    then show "?out ! i = records ! i" by (simp add: enrich_rec_unresolved)
  next
    fix i info assume i: "i < length records"
       and s: "details (strip (g_state_code (records ! i))) = Some info"
    from i s show "g_dma (?out ! i) = gi_target_type info"
      by (simp add: enrich_rec_resolved(1))
    from i s show "(?out ! i)\<lparr> g_state := g_state (records ! i),
                           g_state_code := g_state_code (records ! i),
                           g_dma := g_dma (records ! i) \<rparr> = records ! i"
      by (simp add: enrich_rec_resolved(4))
    { assume us: "gi_country_code info = ''US'' \<and> gi_target_type info \<in> {''State'', ''Province''}"
      from enrich_rec_resolved(2) [of details "records ! i" info, OF s us] i
      show "g_state (?out ! i) = gi_name info" by simp
      from enrich_rec_resolved(2) [of details "records ! i" info, OF s us] i
      show "g_state_code (?out ! i) =
                    (case US_STATE_CODE_BY_NAME (gi_name info) of
                       Some code \<Rightarrow> code
                     | None \<Rightarrow> strip (g_state_code (records ! i)))" by simp }
    { assume nus: "\<not> (gi_country_code info = ''US'' \<and> gi_target_type info \<in> {''State'', ''Province''})"
      from enrich_rec_resolved(3) [of details "records ! i" info, OF s nus] i
      show "g_state (?out ! i) =
                    (if gi_canonical_name info \<noteq> [] then gi_canonical_name info
                     else gi_name info)" by simp
      from enrich_rec_resolved(3) [of details "records ! i" info, OF s nus] i
      show "g_state_code (?out ! i) = strip (g_state_code (records ! i))" by simp }
  qed
  from run each show "\<exists>out. snd (u_enrich_geo_records ga records) = Inr out \<and> length out = length records \<and>
         (\<forall>i < length records.
            (details (strip (g_state_code (records ! i))) = None \<longrightarrow> out ! i = records ! i) \<and>
            (\<forall>info. details (strip (g_state_code (records ! i))) = Some info \<longrightarrow>
               g_dma (out ! i) = gi_target_type info \<and>
               (gi_country_code info = ''US'' \<and> gi_target_type info \<in> {''State'', ''Province''} \<longrightarrow>
                  g_state (out ! i) = gi_name info \<and>
                  g_state_code (out ! i) =
                    (case US_STATE_CODE_BY_NAME (gi_name info) of
                       Some code \<Rightarrow> code
                     | None \<Rightarrow> strip (g_state_code (records ! i)))) \<and>
               (\<not> (gi_country_code info = ''US'' \<and> gi_target_type info \<in> {''State'', ''Province''}) \<longrightarrow>
                  g_state (out ! i) =
                    (if gi_canonical_name info \<noteq> [] then gi_canonical_name info
                     else gi_name info) \<and>
                  g_state_code (out ! i) = strip (g_state_code (records ! i))) \<and>
               (out ! i)\<lparr> g_state := g_state (records ! i),
                           g_state_code := g_state_code (records ! i),
                           g_dma := g_dma (records ! i) \<rparr> = records ! i))"
    by (intro exI [of _ ?out]) simp
qed


lemma example_criterion_ids:
  "geo_criterion_ids example_geo_records = [''20121'', ''21136'', ''21137'', ''2840'']"
  by code_simp

lemma example_details:
  "snd (u_geo_target_details example_geo_api (geo_criterion_ids example_geo_records)) =
     Inr (foldl geo_resolve Map.empty example_geo_rows)"
proof -
  have one: "range_slices 200 0 [''20121'', ''21136'', ''21137'', ''2840''] =
      [[''20121'', ''21136'', ''21137'', ''2840'']]"
    by (subst range_slices.simps, subst range_slices.simps) simp
  show ?thesis
    unfolding example_criterion_ids u_geo_target_details_chunks one
    by (simp add: geo_lookup_step example_api_returns)
qed

lemma example_lookup:
  "foldl geo_resolve Map.empty example_geo_rows ''21137'' =
     Some \<lparr> gi_name = ''California'', gi_canonical_name = ''California,United States'',
            gi_target_type = ''State'', gi_country_code = ''US'' \<rparr>"
  "foldl geo_resolve Map.empty example_geo_rows ''21136'' =
     Some \<lparr> gi_name = ''Puerto Rico'', gi_canonical_name = ''Puerto Rico,United States'',
            gi_target_type = ''State'', gi_country_code = ''US'' \<rparr>"
  "foldl geo_resolve Map.empty example_geo_rows ''20121'' =
     Some \<lparr> gi_name = ''Ontario'', gi_canonical_name = [],
            gi_target_type = ''Province'', gi_country_code = ''CA'' \<rparr>"
  "foldl geo_resolve Map.empty example_geo_rows ''2840'' = None"
  unfolding foldl_geo_resolve using example_ids
  by (simp_all add: example_geo_rows_def info_of_def)

lemma example_strip:
  "strip ''21137'' = ''21137''" "strip ''21136'' = ''21136''" "strip ''20121'' = ''20121''"
  "strip ''2840'' = ''2840''"
  by (simp_all add: strip_def py_isspace_def)

lemma example_table:
  "US_STATE_CODE_BY_NAME ''California'' = Some ''CA''"
  "US_STATE_CODE_BY_NAME ''Puerto Rico'' = None"
  by (simp_all add: US_STATE_CODE_BY_NAME_def)

lemma example_enriched:
  "map geo_fields (map (enrich_rec (foldl geo_resolve Map.empty example_geo_rows))
          example_geo_records) =
     [(''California'', ''CA'', ''State''), (''Puerto Rico'', ''21136'', ''State''),
      (''Ontario'', ''20121'', ''Province''), (''2840'', ''2840'', ''LOCATION_OF_PRESENCE'')]"
  by (simp add: example_geo_records_def example_geo_rec_def enrich_rec_def example_strip
      example_lookup geo_fields_def dict_get_def example_table Let_def)

text \<open>
  Against the specification's wording. The API resolves \<open>21136\<close> to a US state named
  Puerto Rico, which the static table does not have: \<open>state_code\<close> stays \<open>21136\<close> and is
  no abbreviation. It resolves \<open>20121\<close> to a province outside the US with an empty
  canonical name: \<open>state\<close> becomes the name Ontario, not the canonical name.
\<close>

theorem geo_enrichment_fallbacks_counterexample:
  "map_sum id (map geo_fields) (snd (u_enrich_geo_records example_geo_api example_geo_records)) =
     Inr [(''California'', ''CA'', ''State''), (''Puerto Rico'', ''21136'', ''State''),
          (''Ontario'', ''20121'', ''Province''), (''2840'', ''2840'', ''LOCATION_OF_PRESENCE'')] \<and>
   US_STATE_CODE_BY_NAME ''Puerto Rico'' = None \<and>
   gt_canonical_name (example_geo_rows ! 2) = []"
  using example_enriched
  by (simp add: u_enrich_result example_details example_table example_geo_rows_def)


lemma example_geo_records_nth:
  "length example_geo_records = 4"
  "g_state_code (example_geo_records ! 0) = ''21137''"
  "g_state_code (example_geo_records ! 2) = ''20121''"
  "g_state_code (example_geo_records ! 3) = ''2840''"
  by (simp_all add: example_geo_records_def example_geo_rec_def)

theorem geo_enrichment_fields_witness:
  "\<exists>out. snd (u_enrich_geo_records example_geo_api example_geo_records) = Inr out \<and>
         length out = 4 \<and>
         g_state (out ! 0) = ''California'' \<and> g_state_code (out ! 0) = ''CA'' \<and>
         g_dma (out ! 0) = ''State'' \<and>
         g_state (out ! 2) = ''Ontario'' \<and> g_state_code (out ! 2) = ''20121'' \<and>
         g_dma (out ! 2) = ''Province'' \<and>
         out ! 3 = example_geo_records ! 3"
proof -
  let ?D = "foldl geo_resolve Map.empty example_geo_rows"
  let ?CA = "\<lparr> gi_name = ''California'', gi_canonical_name = ''California,United States'',
            gi_target_type = ''State'', gi_country_code = ''US'' \<rparr>"
  from geo_enrichment_fields [of example_geo_api example_geo_records] example_details
  obtain out where run: "snd (u_enrich_geo_records example_geo_api example_geo_records) = Inr out"
    and len: "length out = length example_geo_records"
    and each: "\<forall>i < length example_geo_records.
            (?D (strip (g_state_code (example_geo_records ! i))) = None
               \<longrightarrow> out ! i = example_geo_records ! i) \<and>
            (\<forall>info. ?D (strip (g_state_code (example_geo_records ! i))) = Some info \<longrightarrow>
               g_dma (out ! i) = gi_target_type info \<and>
               (gi_country_code info = ''US'' \<and> gi_target_type info \<in> {''State'', ''Province''} \<longrightarrow>
                  g_state (out ! i) = gi_name info \<and>
                  g_state_code (out ! i) =
                    (case US_STATE_CODE_BY_NAME (gi_name info) of
                       Some code \<Rightarrow> code
                     | None \<Rightarrow> strip (g_state_code (example_geo_records ! i)))) \<and>
               (\<not> (gi_country_code info = ''US'' \<and> gi_target_type info \<in> {''State'', ''Province''}) \<longrightarrow>
                  g_state (out ! i) =
                    (if gi_canonical_name info \<noteq> [] then gi_canonical_name info
                     else gi_name info) \<and>
                  g_state_code (out ! i) = strip (g_state_code (example_geo_records ! i))) \<and>
               (out ! i)\<lparr> g_state := g_state (example_geo_records ! i),
                           g_state_code := g_state_code (example_geo_records ! i),
                           g_dma := g_dma (example_geo_records ! i) \<rparr> = example_geo_records ! i)"
    by blast
  have r3: "out ! 3 = example_geo_records ! 3"
    using each [rule_format, of 3]
    by (simp add: example_geo_records_nth example_strip example_lookup)
  have "?D (strip (g_state_code (example_geo_records ! 0))) = Some ?CA"
    by (simp add: example_geo_records_nth example_strip example_lookup)
  with each [rule_format, of 0] have
    "g_dma (out ! 0) = gi_target_type ?CA \<and>
     (gi_country_code ?CA = ''US'' \<and> gi_target_type ?CA \<in> {''State'', ''Province''} \<longrightarrow>
        g_state (out ! 0) = gi_name ?CA \<and>
        g_state_code (out ! 0) =
          (case US_STATE_CODE_BY_NAME (gi_name ?CA) of
             Some code \<Rightarrow> code
           | None \<Rightarrow> strip (g_state_code (example_geo_records ! 0))))"
    by (simp add: example_geo_records_nth)
  then have r0: "g_state (out ! 0) = ''California'' \<and> g_state_code (out ! 0) = ''CA'' \<and>
         g_dma (out ! 0) = ''State''"
    by (simp add: example_table)
  let ?ON = "\<lparr> gi_name = ''Ontario'', gi_canonical_name = [],
            gi_target_type = ''Province'', gi_country_code = ''CA'' \<rparr>"
  have "?D (strip (g_state_code (example_geo_records ! 2))) = Some ?ON"
    by (simp add: example_geo_records_nth example_strip example_lookup)
  with each [rule_format, of 2] have
    "g_dma (out ! 2) = gi_target_type ?ON \<and>
     (\<not> (gi_country_code ?ON = ''US'' \<and> gi_target_type ?ON \<in> {''State'', ''Province''}) \<longrightarrow>
        g_state (out ! 2) =
          (if gi_canonical_name ?ON \<noteq> [] then gi_canonical_name ?ON else gi_name ?ON) \<and>
        g_state_code (out ! 2) = strip (g_state_code (example_geo_records ! 2)))"
    by (simp add: example_geo_records_nth)
  then have r2: "g_state (out ! 2) = ''Ontario'' \<and> g_state_code (out ! 2) = ''20121'' \<and>
         g_dma (out ! 2) = ''Province''"
    by (simp add: example_geo_records_nth example_strip)
  from run len r0 r2 r3 show ?thesis by (simp add: example_geo_records_nth)
qed


section \<open>Orchestration\<close>

lemma contains_iff: "contains k t \<longleftrightarrow> (\<exists>p s. t = p @ k @ s)"
proof
  assume "contains k t"
  then show "\<exists>p s. t = p @ k @ s"
  proof (induction t)
    case Nil
    then show ?case by simp
  next
    case (Cons c t)
    show ?case
    proof (cases "prefix k (c # t)")
      case True
      then obtain s where "c # t = k @ s" by (auto simp: prefix_def)
      then have "c # t = [] @ k @ s" by simp
      then show ?thesis by blast
    next
      case False
      with Cons.prems have "contains k t" by simp
      with Cons.IH obtain p s where "t = p @ k @ s" by blast
      then have "c # t = (c # p) @ k @ s" by simp
      then show ?thesis by blast
    qed
  qed
next
  assume "\<exists>p s. t = p @ k @ s"
  then obtain p s where "t = p @ k @ s" by blast
  moreover have "contains k (k @ s)" by (rule prefix_contains) simp
  ultimately show "contains k t" by (simp add: contains_append_left)
qed

lemma contains_trans: "contains a b \<Longrightarrow> contains b c \<Longrightarrow> contains a c"
proof -
  assume "contains a b" "contains b c"
  then obtain p s p' s' where "b = p @ a @ s" "c = p' @ b @ s'"
    unfolding contains_iff by blast
  then have "c = (p' @ p) @ a @ (s @ s')" by simp
  then show ?thesis unfolding contains_iff by blast
qed

lemma contains_join: "x \<in> set xs \<Longrightarrow> contains x (join sep xs)"
proof (induction sep xs rule: join.induct)
  case (1 sep)
  then show ?case by simp
next
  case (2 sep y)
  then show ?case by (simp add: contains_iff) (metis append_Nil append_Nil2)
next
  case (3 sep y z zs)
  show ?case
  proof (cases "x = y")
    case True
    have "join sep (y # z # zs) = [] @ y @ (sep @ join sep (z # zs))" by simp
    with True show ?thesis unfolding contains_iff by blast
  next
    case False
    with 3 have "contains x (join sep (z # zs))" by simp
    then have "contains x ((y @ sep) @ join sep (z # zs))" by (rule contains_append_left)
    then show ?thesis by simp
  qed
qed

lemma entity_loop_sum:
  "entity_loop w dc ents (t, errs) =
     (t + sum_list (map (entity_count w dc) ents), errs @ concat (map (entity_error w dc) ents))"
proof (induction ents arbitrary: t errs)
  case Nil
  show ?case by simp
next
  case (Cons cfg rest)
  show ?case
    by (cases "entity_try w dc cfg") (simp_all add: Cons entity_count_def entity_error_def)
qed

lemma errors_empty_iff:
  "concat (map (entity_error w dc) ents) = [] \<longleftrightarrow>
     (\<forall>cfg \<in> set ents. \<exists>n. entity_try w dc cfg = Inr n)"
  by (induction ents) (auto simp: entity_error_def split: sum.splits)

lemma failing_name_in_errors:
  assumes "cfg \<in> set ents" "entity_try w dc cfg = Inl exc"
  shows "contains (e_name cfg) (join sep (concat (map (entity_error w dc) ents)))"
proof -
  have "e_name cfg @ '': '' @ exc_str exc \<in> set (concat (map (entity_error w dc) ents))"
    using assms by (auto simp: entity_error_def intro!: bexI [of _ cfg])
  then have "contains (e_name cfg @ '': '' @ exc_str exc)
      (join sep (concat (map (entity_error w dc) ents)))"
    by (rule contains_join)
  moreover have "contains (e_name cfg) (e_name cfg @ '': '' @ exc_str exc)"
    by (rule prefix_contains) simp
  ultimately show ?thesis by (rule contains_trans [rotated])
qed

lemma sync_ran:
  assumes "w_log_insert w = Inr data"
  shows "sync w ents df dt =
    (let dc = date_cond_of w df dt;
         total_records = sum_list (map (entity_count w dc) ents);
         errors = concat (map (entity_error w dc) ents);
         sync_id = (case data of [] \<Rightarrow> None | row # _ \<Rightarrow> Some row);
         payload = \<lparr> status = (if errors \<noteq> [] then ''error'' else ''success''),
                     records_synced = total_records,
                     error_message = (if errors \<noteq> [] then Some (join ''; '' errors) else None) \<rparr>;
         upd = (case sync_id of None \<Rightarrow> None
                | Some i \<Rightarrow> if i \<noteq> 0 then Some (i, payload) else None)
     in Ran \<lparr> run_sync_id = sync_id, run_total_records = total_records, run_errors = errors,
              run_update = upd,
              run_ending = (case (case upd of None \<Rightarrow> None | Some (i, p) \<Rightarrow> w_log_update w i p) of
                              Some e \<Rightarrow> Uncaught e
                            | None \<Rightarrow> if errors \<noteq> [] then SysExit 1 else Returned) \<rparr>)"
  using assms by (simp add: sync_def date_cond_of_def Let_def entity_loop_sum)

text \<open>
  C2, as the code has it. Take a run whose insert into \<open>sync_log\<close> returned a row with a
  non-zero identifier. Every entity of the catalog is processed: the total is the sum of
  the counts of the entities whose processing returned, and the errors are the messages
  of those whose processing raised, in catalog order. If some entity raised, the update
  issued to the row has status error, the total and the messages joined by \<open>; \<close>, which
  contain the name of every failing entity, and the exit code is not zero. If none
  raised, the update has status success, the total and no message, and the exit code is
  zero provided the update call returns.
\<close>

theorem sync_finalises_run:
  assumes inserted: "w_log_insert w = Inr (sync_id # data)" and truthy: "sync_id \<noteq> 0"
  shows "\<exists>r. sync w ENTITIES date_from date_to = Ran r \<and>
     run_total_records r =
       sum_list (map (entity_count w (date_cond_of w date_from date_to)) ENTITIES) \<and>
     run_errors r = concat (map (entity_error w (date_cond_of w date_from date_to)) ENTITIES) \<and>
     ((\<exists>cfg \<in> set ENTITIES. \<exists>exc. entity_try w (date_cond_of w date_from date_to) cfg = Inl exc) \<longrightarrow>
        run_update r = Some (sync_id, \<lparr> status = ''error'', records_synced = run_total_records r,
                                       error_message = Some (join ''; '' (run_errors r)) \<rparr>) \<and>
        (\<forall>cfg \<in> set ENTITIES. \<forall>exc.
           entity_try w (date_cond_of w date_from date_to) cfg = Inl exc \<longrightarrow>
           contains (e_name cfg) (join ''; '' (run_errors r))) \<and>
        process_exit_code (sync w ENTITIES date_from date_to) \<noteq> 0) \<and>
     ((\<forall>cfg \<in> set ENTITIES. \<exists>n. entity_try w (date_cond_of w date_from date_to) cfg = Inr n) \<longrightarrow>
        run_update r = Some (sync_id, \<lparr> status = ''success'', records_synced = run_total_records r,
                                       error_message = None \<rparr>) \<and>
        (w_log_update w sync_id \<lparr> status = ''success'', records_synced = run_total_records r,
                                  error_message = None \<rparr> = None \<longrightarrow>
           process_exit_code (sync w ENTITIES date_from date_to) = 0))"
proof -
  let ?dc = "date_cond_of w date_from date_to"
  let ?total = "sum_list (map (entity_count w ?dc) ENTITIES)"
  let ?errors = "concat (map (entity_error w ?dc) ENTITIES)"
  let ?payload = "\<lparr> status = (if ?errors \<noteq> [] then ''error'' else ''success''),
                     records_synced = ?total,
                     error_message = (if ?errors \<noteq> [] then Some (join ''; '' ?errors) else None) \<rparr>"
  let ?r = "\<lparr> run_sync_id = Some sync_id, run_total_records = ?total, run_errors = ?errors,
              run_update = Some (sync_id, ?payload),
              run_ending = (case w_log_update w sync_id ?payload of
                              Some e \<Rightarrow> Uncaught e
                            | None \<Rightarrow> if ?errors \<noteq> [] then SysExit 1 else Returned) \<rparr>"
  have run: "sync w ENTITIES date_from date_to = Ran ?r"
    using truthy by (simp add: sync_ran [OF inserted] Let_def)
  have fail: "(\<exists>cfg \<in> set ENTITIES. \<exists>exc. entity_try w ?dc cfg = Inl exc) \<longleftrightarrow> ?errors \<noteq> []"
    unfolding errors_empty_iff by (metis sum.exhaust sum.distinct(1))
  have names: "\<forall>cfg \<in> set ENTITIES. \<forall>exc. entity_try w ?dc cfg = Inl exc \<longrightarrow>
      contains (e_name cfg) (join ''; '' ?errors)"
    using failing_name_in_errors by blast
  have exit_fail: "?errors \<noteq> [] \<Longrightarrow> process_exit_code (Ran ?r) \<noteq> 0"
    by (simp split: option.splits)
  have ok: "(\<forall>cfg \<in> set ENTITIES. \<exists>n. entity_try w ?dc cfg = Inr n) \<longleftrightarrow> ?errors = []"
    by (rule errors_empty_iff [symmetric])
  from fail names exit_fail ok show ?thesis
    unfolding run by (intro exI [of _ ?r]) (auto split: option.splits)
qed

lemma example_dedupe:
  "u_dedupe example_key example_records =
     [(''b'', ''2026-02-17'', 2), (''a'', ''2026-02-17'', 3), (''a'', ''2026-02-18'', 4)]"
  by code_simp

lemma example_upsert: "u_upsert example_key (\<lambda>table chunk. None) table example_records = Inr 3"
proof -
  have "range_slices BATCH_SIZE 0
      [(''b'', ''2026-02-17'', 2 :: nat), (''a'', ''2026-02-17'', 3), (''a'', ''2026-02-18'', 4)] =
      [[(''b'', ''2026-02-17'', 2), (''a'', ''2026-02-17'', 3), (''a'', ''2026-02-18'', 4)]]"
    by (subst range_slices.simps, subst range_slices.simps) (simp add: BATCH_SIZE_def)
  moreover have "example_records \<noteq> []" by (simp add: example_records_def)
  ultimately show ?thesis by (simp add: u_upsert_def example_dedupe)
qed

lemma example_entity_try_ok:
  assumes "api (name @ '' WHERE '' @ dc) = Inr [example_records]"
  shows "entity_try (example_world api inserted updated) dc (example_entity name) = Inr 3"
  using assms
  by (simp add: entity_try_def example_world_def example_entity_def u_run_gaql_def bind_exn_def
      example_upsert)

lemma example_entity_try_campaigns:
  "entity_try (example_world example_failing_api inserted updated) dc (example_entity ''campaigns'') =
     Inl (Raised ''quota exceeded'')"
  by (simp add: entity_try_def example_world_def example_entity_def example_failing_api_def
      u_run_gaql_def bind_exn_def)

lemma example_failing_others:
  "name \<in> set (tl ENTITY_NAMES) \<Longrightarrow>
     entity_try (example_world example_failing_api inserted updated) dc (example_entity name) = Inr 3"
  by (rule example_entity_try_ok) (auto simp: ENTITY_NAMES_def example_failing_api_def)

lemma example_quiet_all:
  "entity_try (example_world example_quiet_api inserted updated) dc (example_entity name) = Inr 3"
  by (rule example_entity_try_ok) (simp add: example_quiet_api_def)

lemma example_entity_name: "e_name (example_entity name) = name"
  by (simp add: example_entity_def)

lemma example_failing_totals:
  "sum_list (map (entity_count (example_world example_failing_api inserted updated) dc) example_catalog) = 30"
  "concat (map (entity_error (example_world example_failing_api inserted updated) dc) example_catalog) =
     [''campaigns: quota exceeded'']"
  by (simp_all add: example_catalog_def ENTITY_NAMES_def entity_count_def entity_error_def
      example_failing_others example_entity_try_campaigns example_entity_name)

lemma example_quiet_totals:
  "sum_list (map (entity_count (example_world example_quiet_api inserted updated) dc) example_catalog) = 33"
  "concat (map (entity_error (example_world example_quiet_api inserted updated) dc) example_catalog) = []"
  by (simp_all add: entity_count_def entity_error_def example_quiet_all example_catalog_def
      ENTITY_NAMES_def)

lemma example_world_fields:
  "w_log_insert (example_world api inserted updated) = inserted"
  "w_log_update (example_world api inserted updated) i p = updated"
  by (simp_all add: example_world_def)

text \<open>
  Against the specification's wording. In the first run the insert returns no row: the
  campaigns entity raises, each of the ten others upserts 3 rows, and no update is issued,
  so the row is not finalised. In the second run no entity raises and the final update
  raises: the exit code is 1.
\<close>

theorem sync_finalises_run_counterexample:
  "sync (example_world example_failing_api (Inr []) None) example_catalog (Some ''2026-02-17'') None =
     Ran \<lparr> run_sync_id = None, run_total_records = 30,
           run_errors = [''campaigns: quota exceeded''], run_update = None,
           run_ending = SysExit 1 \<rparr> \<and>
   sync (example_world example_quiet_api (Inr [7]) (Some (Raised ''timeout''))) example_catalog
        (Some ''2026-02-17'') None =
     Ran \<lparr> run_sync_id = Some 7, run_total_records = 33, run_errors = [],
           run_update = Some (7, \<lparr> status = ''success'', records_synced = 33, error_message = None \<rparr>),
           run_ending = Uncaught (Raised ''timeout'') \<rparr> \<and>
   process_exit_code (sync (example_world example_quiet_api (Inr [7]) (Some (Raised ''timeout'')))
                           example_catalog (Some ''2026-02-17'') None) = 1"
  by (simp add: sync_ran [of _ "[]"] sync_ran [of _ "[7]"] example_world_fields
      example_failing_totals example_quiet_totals Let_def)

theorem sync_finalises_run_witness:
  "(\<exists>r. sync (example_world example_failing_api (Inr [7]) None) example_catalog
             (Some ''2026-02-17'') None = Ran r \<and>
        run_total_records r = 30 \<and>
        run_update r = Some (7, \<lparr> status = ''error'', records_synced = 30,
                                   error_message = Some ''campaigns: quota exceeded'' \<rparr>) \<and>
        contains ''campaigns'' (join ''; '' (run_errors r))) \<and>
   process_exit_code (sync (example_world example_failing_api (Inr [7]) None) example_catalog
                           (Some ''2026-02-17'') None) \<noteq> 0 \<and>
   (\<exists>r. sync (example_world example_quiet_api (Inr [7]) None) example_catalog
             (Some ''2026-02-17'') None = Ran r \<and>
        run_update r = Some (7, \<lparr> status = ''success'', records_synced = 33, error_message = None \<rparr>)) \<and>
   process_exit_code (sync (example_world example_quiet_api (Inr [7]) None) example_catalog
                           (Some ''2026-02-17'') None) = 0"
proof -
  let ?w = "example_world example_failing_api (Inr [7]) None"
  let ?dc = "date_cond_of ?w (Some ''2026-02-17'') None"
  have ins: "w_log_insert ?w = Inr (7 # [])" by (simp add: example_world_fields)
  have member: "example_entity ''campaigns'' \<in> set example_catalog"
    by (simp add: example_catalog_def ENTITY_NAMES_def)
  have fails: "entity_try ?w ?dc (example_entity ''campaigns'') = Inl (Raised ''quota exceeded'')"
    by (rule example_entity_try_campaigns)
  from member fails
  have campaigns_fails: "\<exists>cfg \<in> set example_catalog. \<exists>exc. entity_try ?w ?dc cfg = Inl exc"
    by blast
  have name: "e_name (example_entity ''campaigns'') = ''campaigns''"
    by (rule example_entity_name)
  from sync_finalises_run [OF ins, of example_catalog "Some ''2026-02-17''" None] campaigns_fails
  obtain r where r: "sync ?w example_catalog (Some ''2026-02-17'') None = Ran r"
    and total: "run_total_records r = sum_list (map (entity_count ?w ?dc) example_catalog)"
    and errs: "run_errors r = concat (map (entity_error ?w ?dc) example_catalog)"
    and upd: "run_update r = Some (7, \<lparr> status = ''error'', records_synced = run_total_records r,
                                       error_message = Some (join ''; '' (run_errors r)) \<rparr>)"
    and names: "\<forall>cfg \<in> set example_catalog. \<forall>exc. entity_try ?w ?dc cfg = Inl exc \<longrightarrow>
           contains (e_name cfg) (join ''; '' (run_errors r))"
    and code: "process_exit_code (sync ?w example_catalog (Some ''2026-02-17'') None) \<noteq> 0"
    by auto
  from total have t30: "run_total_records r = 30"
    by (simp add: example_failing_totals)
  from errs have e1: "run_errors r = [''campaigns: quota exceeded'']"
    by (simp add: example_failing_totals)
  from names member fails name have c: "contains ''campaigns'' (join ''; '' (run_errors r))"
    by metis
  have first: "\<exists>r. sync ?w example_catalog (Some ''2026-02-17'') None = Ran r \<and>
        run_total_records r = 30 \<and>
        run_update r = Some (7, \<lparr> status = ''error'', records_synced = 30,
                                   error_message = Some ''campaigns: quota exceeded'' \<rparr>) \<and>
        contains ''campaigns'' (join ''; '' (run_errors r))"
    using r t30 upd c e1 by simp
  let ?q = "example_world example_quiet_api (Inr [7]) None"
  let ?dq = "date_cond_of ?q (Some ''2026-02-17'') None"
  have insq: "w_log_insert ?q = Inr (7 # [])" by (simp add: example_world_fields)
  have all_ok: "\<forall>cfg \<in> set example_catalog. \<exists>n. entity_try ?q ?dq cfg = Inr n"
    by (auto simp: example_catalog_def example_quiet_all)
  from sync_finalises_run [OF insq, of example_catalog "Some ''2026-02-17''" None] all_ok
  obtain r' where r': "sync ?q example_catalog (Some ''2026-02-17'') None = Ran r'"
    and total': "run_total_records r' = sum_list (map (entity_count ?q ?dq) example_catalog)"
    and upd': "run_update r' = Some (7, \<lparr> status = ''success'', records_synced = run_total_records r',
                                       error_message = None \<rparr>)"
    and code': "w_log_update ?q 7 \<lparr> status = ''success'', records_synced = run_total_records r',
                                  error_message = None \<rparr> = None \<longrightarrow>
           process_exit_code (sync ?q example_catalog (Some ''2026-02-17'') None) = 0"
    by auto
  from total' have t33: "run_total_records r' = 33" by (simp add: example_quiet_totals)
  from code' have zero: "process_exit_code (sync ?q example_catalog (Some ''2026-02-17'') None) = 0"
    by (simp add: example_world_fields)
  have second: "\<exists>r. sync ?q example_catalog (Some ''2026-02-17'') None = Ran r \<and>
        run_update r = Some (7, \<lparr> status = ''success'', records_synced = 33, error_message = None \<rparr>)"
    using r' upd' t33 by simp
  from first code second zero show ?thesis by blast
qed

lemma sync_insert_raised:
  "w_log_insert w = Inl e \<Longrightarrow> sync w ents df dt = InsertRaised e"
  by (simp add: sync_def Let_def)

text \<open>
  C8, as the code has it. The insert into \<open>sync_log\<close> is tolerated when it returns
  without a usable identifier, that is with no row or with an identifier that is zero:
  the run then goes through every entity of the catalog, issues no final update, and ends
  by returning, or by \<open>sys.exit(1)\<close> when an entity raised. An exception raised by the
  insert is not caught: it leaves \<open>sync\<close> before any entity is processed, and the process
  ends with exit code 1.
\<close>

theorem sync_log_insert_failure:
  "(\<forall>e. w_log_insert w = Inl e \<longrightarrow>
      sync w ENTITIES date_from date_to = InsertRaised e \<and>
      process_exit_code (sync w ENTITIES date_from date_to) = 1) \<and>
   (w_log_insert w = Inr [] \<or> (\<exists>data. w_log_insert w = Inr (0 # data)) \<longrightarrow>
      (\<exists>r. sync w ENTITIES date_from date_to = Ran r \<and>
         run_total_records r =
           sum_list (map (entity_count w (date_cond_of w date_from date_to)) ENTITIES) \<and>
         run_errors r = concat (map (entity_error w (date_cond_of w date_from date_to)) ENTITIES) \<and>
         run_update r = None \<and>
         run_ending r = (if run_errors r \<noteq> [] then SysExit 1 else Returned)))"
proof (intro conjI allI impI)
  fix e assume e: "w_log_insert w = Inl e"
  then show "sync w ENTITIES date_from date_to = InsertRaised e"
    by (rule sync_insert_raised)
  then show "process_exit_code (sync w ENTITIES date_from date_to) = 1"
    by simp
next
  assume "w_log_insert w = Inr [] \<or> (\<exists>data. w_log_insert w = Inr (0 # data))"
  then consider "w_log_insert w = Inr []" | data where "w_log_insert w = Inr (0 # data)"
    by blast
  then show "\<exists>r. sync w ENTITIES date_from date_to = Ran r \<and>
         run_total_records r =
           sum_list (map (entity_count w (date_cond_of w date_from date_to)) ENTITIES) \<and>
         run_errors r = concat (map (entity_error w (date_cond_of w date_from date_to)) ENTITIES) \<and>
         run_update r = None \<and>
         run_ending r = (if run_errors r \<noteq> [] then SysExit 1 else Returned)"
  proof cases
    case 1
    then show ?thesis by (simp add: sync_ran Let_def)
  next
    case 2
    then show ?thesis by (simp add: sync_ran Let_def)
  qed
qed

theorem sync_log_insert_failure_witness:
  "sync (example_world example_quiet_api (Inl (Raised ''permission denied'')) None) example_catalog
        None None = InsertRaised (Raised ''permission denied'') \<and>
   (\<exists>r. sync (example_world example_failing_api (Inr [0]) None) example_catalog None None = Ran r \<and>
        run_total_records r = 30 \<and> run_errors r = [''campaigns: quota exceeded''] \<and>
        run_update r = None \<and> run_ending r = SysExit 1) \<and>
   (\<exists>r. sync (example_world example_quiet_api (Inr []) None) example_catalog None None = Ran r \<and>
        run_total_records r = 33 \<and> run_update r = None \<and> run_ending r = Returned)"
proof -
  let ?w1 = "example_world example_quiet_api (Inl (Raised ''permission denied'')) None"
  let ?w2 = "example_world example_failing_api (Inr [0]) None"
  let ?w3 = "example_world example_quiet_api (Inr []) None"
  have "w_log_insert ?w1 = Inl (Raised ''permission denied'')"
    by (simp add: example_world_fields)
  with sync_log_insert_failure [of ?w1 example_catalog None None]
  have a: "sync ?w1 example_catalog None None = InsertRaised (Raised ''permission denied'')"
    by blast
  have "w_log_insert ?w2 = Inr [] \<or> (\<exists>data. w_log_insert ?w2 = Inr (0 # data))"
    by (simp add: example_world_fields)
  with sync_log_insert_failure [of ?w2 example_catalog None None]
  obtain r where r: "sync ?w2 example_catalog None None = Ran r"
    and "run_total_records r =
           sum_list (map (entity_count ?w2 (date_cond_of ?w2 None None)) example_catalog)"
    and "run_errors r = concat (map (entity_error ?w2 (date_cond_of ?w2 None None)) example_catalog)"
    and "run_update r = None"
    and "run_ending r = (if run_errors r \<noteq> [] then SysExit 1 else Returned)"
    by blast
  then have b: "\<exists>r. sync ?w2 example_catalog None None = Ran r \<and>
        run_total_records r = 30 \<and> run_errors r = [''campaigns: quota exceeded''] \<and>
        run_update r = None \<and> run_ending r = SysExit 1"
    by (simp add: example_failing_totals)
  have "w_log_insert ?w3 = Inr [] \<or> (\<exists>data. w_log_insert ?w3 = Inr (0 # data))"
    by (simp add: example_world_fields)
  with sync_log_insert_failure [of ?w3 example_catalog None None]
  obtain r' where "sync ?w3 example_catalog None None = Ran r'"
    and "run_total_records r' =
           sum_list (map (entity_count ?w3 (date_cond_of ?w3 None None)) example_catalog)"
    and "run_errors r' = concat (map (entity_error ?w3 (date_cond_of ?w3 None None)) example_catalog)"
    and "run_update r' = None"
    and "run_ending r' = (if run_errors r' \<noteq> [] then SysExit 1 else Returned)"
    by blast
  then have c: "\<exists>r. sync ?w3 example_catalog None None = Ran r \<and>
        run_total_records r = 33 \<and> run_update r = None \<and> run_ending r = Returned"
    by (simp add: example_quiet_totals)
  from a b c show ?thesis by blast
qed

text \<open>
  Against the specification's wording: an insert that raises ends the run, with no entity
  processed.
\<close>

theorem sync_log_insert_raises_counterexample:
  "sync (example_world example_failing_api (Inl (Raised ''connection refused'')) None) example_catalog
        (Some ''2026-02-17'') None = InsertRaised (Raised ''connection refused'') \<and>
   process_exit_code (sync (example_world example_failing_api (Inl (Raised ''connection refused'')) None)
                           example_catalog (Some ''2026-02-17'') None) = 1"
  by (simp add: sync_def example_world_def Let_def)


section \<open>Test vectors\<close>

text \<open>The model of SHA-256 on the \<^verbatim>\<open>abc\<close> test vector of the standard.\<close>

lemma sha256_abc:
  "hexdigest (sha256 (encode ''abc'')) =
     ''ba7816bf8f01cfea414140de5dae2223b00361a396177a9cb410ff61f20015ad''"
  by code_simp


end
